theory Spec2Isabelle
  imports Main "HOL-Library.Word"
begin

section \<open>Solidity value types\<close>

text \<open>
  The engine is the Solidity contract \<open>FHEVMContract\<close> (compiler 0.8.24). Its integers
  are fixed-width words: \<open>+\<close>, \<open>-\<close> and \<open>*\<close> on \<open>uint256\<close> are checked and revert
  with a panic when the mathematical result does not fit, explicit conversions such as
  \<open>uint8(...)\<close> and \<open>uint32(...)\<close> truncate.
\<close>

type_synonym uint256 = "256 word"
type_synonym uint32 = "32 word"
type_synonym uint8 = "8 word"
type_synonym address = "160 word"
type_synonym bytes32 = "256 word"
type_synonym bytes = "8 word list"

text \<open>
  Every way a call can revert. The \<open>require\<close> messages of the contract are named after
  the error taxonomy of the specification:
  \<^item> \<open>ZeroValueDeposit\<close>: "Must send ETH with deposit";
  \<^item> \<open>SelfTransferNotAllowed\<close>: "Cannot transfer to self";
  \<^item> \<open>NoDepositOnRecord\<close>: "No balance available" and "Must have deposit first";
  \<^item> \<open>GameAlreadyActive\<close>: "Game already in progress";
  \<^item> \<open>NoActiveGame\<close>: "No active game";
  \<^item> \<open>InsufficientBalance\<close>: "Insufficient balance";
  \<^item> \<open>ProofVerificationFailed\<close>: \<open>FHE.fromExternal\<close> rejected the input proof;
  \<^item> \<open>ArithmeticPanic\<close>: checked \<open>uint256\<close> arithmetic overflowed or underflowed;
  \<^item> \<open>SenderNotAllowed\<close>: the access control list of the FHE library refused a grant
    because the contract itself is not allowed on the handle.
\<close>

datatype error =
    ZeroValueDeposit
  | SelfTransferNotAllowed
  | NoDepositOnRecord
  | GameAlreadyActive
  | NoActiveGame
  | InsufficientBalance
  | ProofVerificationFailed
  | ArithmeticPanic
  | SenderNotAllowed

definition checked_add :: "uint256 \<Rightarrow> uint256 \<Rightarrow> error + uint256" where
  "checked_add a b = (if unat a + unat b < 2 ^ 256 then Inr (a + b) else Inl ArithmeticPanic)"

definition checked_sub :: "uint256 \<Rightarrow> uint256 \<Rightarrow> error + uint256" where
  "checked_sub a b = (if unat b \<le> unat a then Inr (a - b) else Inl ArithmeticPanic)"

definition checked_mul :: "uint256 \<Rightarrow> uint256 \<Rightarrow> error + uint256" where
  "checked_mul a b = (if unat a * unat b < 2 ^ 256 then Inr (a * b) else Inl ArithmeticPanic)"

subsection \<open>Packed encoding\<close>

text \<open>
  \<open>abi.encodePacked\<close> writes a \<open>uint256\<close> or \<open>bytes32\<close> as 32 big-endian bytes, an
  \<open>address\<close> as 20 bytes and a \<open>uint8\<close> as one byte, and concatenates them.
\<close>

definition be_bytes :: "nat \<Rightarrow> 'a::len word \<Rightarrow> bytes" where
  "be_bytes n w = map (\<lambda>i. ucast (drop_bit (8 * i) w)) (rev [0..<n])"

definition packed_uint256 :: "uint256 \<Rightarrow> bytes" where
  "packed_uint256 w = be_bytes 32 w"

definition packed_bytes32 :: "bytes32 \<Rightarrow> bytes" where
  "packed_bytes32 w = be_bytes 32 w"

definition packed_address :: "address \<Rightarrow> bytes" where
  "packed_address a = be_bytes 20 a"

definition packed_uint8 :: "uint8 \<Rightarrow> bytes" where
  "packed_uint8 c = [c]"

section \<open>The FHE library and its access control list\<close>

text \<open>
  Modelled from the spec: the library \<open>FHE\<close> of \<open>@fhevm/solidity\<close> (types \<open>euint32\<close>,
  \<open>ebool\<close>, \<open>externalEuint32\<close>; functions \<open>fromExternal\<close>, \<open>asEuint32\<close>, \<open>asEbool\<close>,
  \<open>add\<close>, \<open>sub\<close>, \<open>mul\<close>, \<open>allow\<close>, \<open>allowThis\<close>) is imported by the contract and is not
  part of the repository. The specification describes it as an abstract algebra of opaque
  handles: a handle is created by encrypting a literal, by \<open>fromExternal\<close> after proof
  verification, or as the output of an arithmetic operation; it is immutable; its
  plaintext is a homomorphic image in the integers modulo \<open>2 ^ 32\<close>, visible only to a
  decryption oracle outside the engine.

  A handle is therefore the term that created it. \<open>Uninit\<close> is the zero value that every
  Solidity mapping slot of type \<open>euint32\<close> or \<open>ebool\<close> holds before it is first written;
  the three handle types are the same \<open>bytes32\<close> underneath, and the access control list
  is keyed by that value.
\<close>

datatype handle =
    Uninit
  | Trivial32 uint32
  | TrivialBool bool
  | Input bytes32
  | HAdd handle handle
  | HSub handle handle
  | HMul handle handle

text \<open>
  Modelled from the spec: the decryption oracle. \<open>pt\<close> gives the plaintext that the
  submitter of an external ciphertext committed to; the default handle decrypts to zero.
  The engine never calls it.
\<close>

fun decrypt32 :: "(bytes32 \<Rightarrow> uint32) \<Rightarrow> handle \<Rightarrow> uint32" where
  "decrypt32 pt Uninit = 0"
| "decrypt32 pt (Trivial32 v) = v"
| "decrypt32 pt (TrivialBool b) = (if b then 1 else 0)"
| "decrypt32 pt (Input x) = pt x"
| "decrypt32 pt (HAdd a b) = decrypt32 pt a + decrypt32 pt b"
| "decrypt32 pt (HSub a b) = decrypt32 pt a - decrypt32 pt b"
| "decrypt32 pt (HMul a b) = decrypt32 pt a * decrypt32 pt b"

definition decryptBool :: "(bytes32 \<Rightarrow> uint32) \<Rightarrow> handle \<Rightarrow> bool" where
  "decryptBool pt h = (decrypt32 pt h \<noteq> 0)"

definition FHE_asEuint32 :: "uint32 \<Rightarrow> handle" where
  "FHE_asEuint32 v = Trivial32 v"

definition FHE_asEbool :: "bool \<Rightarrow> handle" where
  "FHE_asEbool b = TrivialBool b"

definition FHE_add :: "handle \<Rightarrow> handle \<Rightarrow> handle" where
  "FHE_add a b = HAdd a b"

definition FHE_sub :: "handle \<Rightarrow> handle \<Rightarrow> handle" where
  "FHE_sub a b = HSub a b"

definition FHE_mul :: "handle \<Rightarrow> handle \<Rightarrow> handle" where
  "FHE_mul a b = HMul a b"

section \<open>Environment and contract state\<close>

text \<open>
  What the execution environment supplies to one call: the hash primitive, the proof
  verifier behind \<open>FHE.fromExternal\<close>, the contract's own address, the block fields used
  as entropy and the caller. \<open>msg.value\<close> is an argument of the three payable functions;
  the other functions are not payable and cannot be entered with a payment.
\<close>

record env =
  keccak256 :: "bytes \<Rightarrow> bytes32"
  inputVerifier :: "bytes32 \<Rightarrow> bytes \<Rightarrow> bool"
  address_this :: address
  block_timestamp :: uint256
  block_prevrandao :: uint256
  block_number :: uint256
  msg_sender :: address

text \<open>
  Modelled from the spec: \<open>fromExternal\<close> fails with \<open>ProofVerificationFailed\<close> when the
  verifier rejects the payload and otherwise returns a handle for the committed value.
\<close>

definition FHE_fromExternal :: "env \<Rightarrow> bytes32 \<Rightarrow> bytes \<Rightarrow> error + handle" where
  "FHE_fromExternal e ext inputProof =
     (if inputVerifier e ext inputProof then Inr (Input ext) else Inl ProofVerificationFailed)"

text \<open>
  The structs \<open>Game\<close> and \<open>SimpleGame\<close> have the same fields and differ only in the type
  of \<open>wager\<close> and \<open>score\<close>: an \<open>euint32\<close> handle or a \<open>uint256\<close>.
\<close>

record 'v game =
  player :: address
  wager :: 'v
  currentCard :: uint8
  score :: 'v
  isActive :: bool
  timestamp :: uint256
  gameSecret :: bytes32

type_synonym Game = "handle game"
type_synonym SimpleGame = "uint256 game"

datatype event =
    EncryptedDeposit address uint256
  | EncryptedOperation address string uint256
  | PermissionGranted address string uint256
  | GameStarted address uint8 uint256
  | GameResult address uint8 bool uint256 uint256
  | GameEnded address uint256
  | DepositMade address uint256
  | WithdrawalMade address uint256

text \<open>
  The storage of the contract, the access control list of the FHE library (a relation
  between handles and the addresses allowed to decrypt them) and the event log.
\<close>

record state =
  encryptedBalances :: "address \<Rightarrow> handle"
  encryptedScores :: "address \<Rightarrow> handle"
  encryptedFlags :: "address \<Rightarrow> handle"
  hasDeposit :: "address \<Rightarrow> bool"
  lastActivity :: "address \<Rightarrow> uint256"
  simpleBalances :: "address \<Rightarrow> uint256"
  games :: "address \<Rightarrow> Game"
  simpleGames :: "address \<Rightarrow> SimpleGame"
  acl :: "(handle \<times> address) set"
  events :: "event list"

definition emptyGame :: Game where
  "emptyGame = \<lparr>player = 0, wager = Uninit, currentCard = 0, score = Uninit,
                 isActive = False, timestamp = 0, gameSecret = 0\<rparr>"

definition emptySimpleGame :: SimpleGame where
  "emptySimpleGame = \<lparr>player = 0, wager = 0, currentCard = 0, score = 0,
                       isActive = False, timestamp = 0, gameSecret = 0\<rparr>"

text \<open>The state after the constructor: every mapping slot holds its zero value.\<close>

definition initial :: state where
  "initial = \<lparr>encryptedBalances = (\<lambda>_. Uninit), encryptedScores = (\<lambda>_. Uninit),
               encryptedFlags = (\<lambda>_. Uninit), hasDeposit = (\<lambda>_. False),
               lastActivity = (\<lambda>_. 0), simpleBalances = (\<lambda>_. 0),
               games = (\<lambda>_. emptyGame), simpleGames = (\<lambda>_. emptySimpleGame),
               acl = {}, events = []\<rparr>"

text \<open>
  Modelled from the spec: \<open>isGranted(handle, principal)\<close>, the pure query on the
  access control list of the FHE library.
\<close>

definition isGranted :: "state \<Rightarrow> handle \<Rightarrow> address \<Rightarrow> bool" where
  "isGranted s h a = ((h, a) \<in> acl s)"

text \<open>
  Modelled from the spec: \<open>FHE.allow\<close> and \<open>FHE.allowThis\<close> of the library, which is
  not part of the repository. \<open>grant(handle, principal)\<close> idempotently adds a decryption
  right and nothing revokes one; \<open>allowThis\<close> grants to the contract itself. These two
  definitions are the grant on a handle that the same call has just obtained from the
  library (\<open>fromExternal\<close>, \<open>asEuint32\<close>, \<open>asEbool\<close>, \<open>add\<close>, \<open>sub\<close>, \<open>mul\<close>):
  the library allows the contract on such a handle for the rest of the transaction, so
  the grant is accepted and only adds the pair. Every grant in the contract except those
  of \<open>grantAllPermissions\<close> is of this kind.
\<close>

definition FHE_allow :: "handle \<Rightarrow> address \<Rightarrow> state \<Rightarrow> state" where
  "FHE_allow h a s = s\<lparr>acl := insert (h, a) (acl s)\<rparr>"

definition FHE_allowThis :: "env \<Rightarrow> handle \<Rightarrow> state \<Rightarrow> state" where
  "FHE_allowThis e h s = FHE_allow h (address_this e) s"

text \<open>
  Modelled from the spec: the same two library functions on an arbitrary handle. The spec
  gives the effect of an accepted grant; the access control list of the library
  accepts a grant only from a contract that is itself allowed on the handle, either
  transiently, because the handle was produced earlier in the same transaction (the set
  \<open>tr\<close>), or persistently, by an earlier grant to the contract. Otherwise the call
  reverts with \<open>SenderNotAllowed\<close>. In particular a grant on the default handle of a
  slot that was never written reverts. \<open>FHE_allow\<close> is the case of a handle in \<open>tr\<close>.
\<close>

definition ACL_allow ::
  "env \<Rightarrow> handle set \<Rightarrow> handle \<Rightarrow> address \<Rightarrow> state \<Rightarrow> error + state" where
  "ACL_allow e tr h a s =
     (if h \<in> tr \<or> isGranted s h (address_this e) then Inr (FHE_allow h a s)
      else Inl SenderNotAllowed)"

definition ACL_allowThis :: "env \<Rightarrow> handle set \<Rightarrow> handle \<Rightarrow> state \<Rightarrow> error + state" where
  "ACL_allowThis e tr h s = ACL_allow e tr h (address_this e) s"

definition emit :: "event \<Rightarrow> state \<Rightarrow> state" where
  "emit ev s = s\<lparr>events := events s @ [ev]\<rparr>"

section \<open>Card draws\<close>

text \<open>
  All four draws have the shape \<open>uint8((uint256(keccak256(...)) % 13) + 1)\<close>. The
  remainder is at most 12, so the checked addition cannot overflow; the conversion to
  \<open>uint8\<close> truncates.
\<close>

definition cardOf :: "bytes32 \<Rightarrow> uint8" where
  "cardOf h = ucast ((h mod 13) + 1)"

definition secretOf :: "env \<Rightarrow> uint8 \<Rightarrow> bytes32" where
  "secretOf e c =
     keccak256 e (packed_uint256 (block_timestamp e) @ packed_address (msg_sender e)
                  @ packed_uint8 c)"

definition startGame_card :: "env \<Rightarrow> uint8" where
  "startGame_card e =
     cardOf (keccak256 e (packed_uint256 (block_timestamp e)
                          @ packed_uint256 (block_prevrandao e)
                          @ packed_address (msg_sender e)
                          @ packed_uint256 (block_number e)))"

definition makeGuess_card :: "env \<Rightarrow> bytes32 \<Rightarrow> uint8" where
  "makeGuess_card e secret =
     cardOf (keccak256 e (packed_uint256 (block_timestamp e)
                          @ packed_uint256 (block_prevrandao e)
                          @ packed_address (msg_sender e)
                          @ packed_bytes32 secret
                          @ packed_uint256 (block_number e)))"

definition simpleStartGame_card :: "env \<Rightarrow> uint8" where
  "simpleStartGame_card e =
     cardOf (keccak256 e (packed_uint256 (block_timestamp e)
                          @ packed_uint256 (block_prevrandao e)
                          @ packed_address (msg_sender e)))"

definition simpleMakeGuess_card :: "env \<Rightarrow> bytes32 \<Rightarrow> uint8" where
  "simpleMakeGuess_card e secret =
     cardOf (keccak256 e (packed_uint256 (block_timestamp e)
                          @ packed_uint256 (block_prevrandao e)
                          @ packed_address (msg_sender e)
                          @ packed_bytes32 secret))"

section \<open>Core FHEVM demo functions\<close>

text \<open>
  Each external function is a function from the environment, its arguments and the state
  to either the error it reverts with or the state it commits (and its return values).
  A reverted call leaves the storage as it was, so the error carries no state.
\<close>

definition depositEncrypted ::
  "env \<Rightarrow> uint256 \<Rightarrow> bytes32 \<Rightarrow> bytes \<Rightarrow> state \<Rightarrow> error + state" where
  "depositEncrypted e msg_value encryptedAmount inputProof s =
     (if \<not> 0 < msg_value then Inl ZeroValueDeposit
      else case FHE_fromExternal e encryptedAmount inputProof of
        Inl err \<Rightarrow> Inl err
      | Inr amount \<Rightarrow>
          let u = msg_sender e;
              s1 = s\<lparr>encryptedBalances :=
                      (encryptedBalances s)(u := FHE_add (encryptedBalances s u) amount)\<rparr>;
              s2 = FHE_allowThis e (encryptedBalances s1 u) s1;
              s3 = FHE_allow (encryptedBalances s2 u) u s2;
              s4 = s3\<lparr>hasDeposit := (hasDeposit s3)(u := True)\<rparr>;
              s5 = s4\<lparr>lastActivity := (lastActivity s4)(u := block_timestamp e)\<rparr>;
              s6 = emit (EncryptedDeposit u (block_timestamp e)) s5
          in Inr (emit (PermissionGranted u ''balance'' (block_timestamp e)) s6))"

definition simpleDeposit :: "env \<Rightarrow> uint256 \<Rightarrow> state \<Rightarrow> error + state" where
  "simpleDeposit e msg_value s =
     (if \<not> 0 < msg_value then Inl ZeroValueDeposit
      else let u = msg_sender e in
        case checked_add (simpleBalances s u) msg_value of
          Inl err \<Rightarrow> Inl err
        | Inr b \<Rightarrow>
            let s1 = s\<lparr>simpleBalances := (simpleBalances s)(u := b)\<rparr>;
                s2 = s1\<lparr>hasDeposit := (hasDeposit s1)(u := True)\<rparr>;
                s3 = s2\<lparr>lastActivity := (lastActivity s2)(u := block_timestamp e)\<rparr>
            in Inr (emit (DepositMade u (block_timestamp e)) s3))"

text \<open>\<open>uint32(amountWei / 1e14)\<close> truncates the quotient to its low 32 bits.\<close>

definition fhevmDeposit :: "env \<Rightarrow> uint256 \<Rightarrow> state \<Rightarrow> error + state" where
  "fhevmDeposit e msg_value s =
     (if \<not> 0 < msg_value then Inl ZeroValueDeposit
      else
        let u = msg_sender e;
            amountWei = msg_value;
            encryptedAmount = FHE_asEuint32 (ucast (amountWei div 100000000000000));
            s1 = s\<lparr>encryptedBalances :=
                    (encryptedBalances s)(u := FHE_add (encryptedBalances s u) encryptedAmount)\<rparr>;
            s2 = s1\<lparr>hasDeposit := (hasDeposit s1)(u := True)\<rparr>;
            s3 = FHE_allowThis e (encryptedBalances s2 u) s2;
            s4 = FHE_allow (encryptedBalances s3 u) u s3
        in Inr (emit (DepositMade u (block_timestamp e)) s4))"

definition performArithmetic ::
  "env \<Rightarrow> bytes32 \<Rightarrow> bytes32 \<Rightarrow> bytes \<Rightarrow> bytes \<Rightarrow> state \<Rightarrow> error + state" where
  "performArithmetic e encryptedA encryptedB proofA proofB s =
     (case FHE_fromExternal e encryptedA proofA of
        Inl err \<Rightarrow> Inl err
      | Inr a \<Rightarrow>
     (case FHE_fromExternal e encryptedB proofB of
        Inl err \<Rightarrow> Inl err
      | Inr b \<Rightarrow>
          let u = msg_sender e;
              sum = FHE_add a b;
              difference = FHE_sub a b;
              product = FHE_mul a b;
              s1 = s\<lparr>encryptedScores :=
                      (encryptedScores s)(u := FHE_add sum (FHE_add difference product))\<rparr>;
              s2 = FHE_allowThis e (encryptedScores s1 u) s1;
              s3 = FHE_allow (encryptedScores s2 u) u s2;
              s4 = s3\<lparr>lastActivity := (lastActivity s3)(u := block_timestamp e)\<rparr>
          in Inr (emit (EncryptedOperation u ''arithmetic'' (block_timestamp e)) s4)))"

definition transferEncrypted ::
  "env \<Rightarrow> address \<Rightarrow> bytes32 \<Rightarrow> bytes \<Rightarrow> state \<Rightarrow> error + state" where
  "transferEncrypted e to encryptedAmount inputProof s =
     (if \<not> to \<noteq> msg_sender e then Inl SelfTransferNotAllowed
      else if \<not> hasDeposit s (msg_sender e) then Inl NoDepositOnRecord
      else case FHE_fromExternal e encryptedAmount inputProof of
        Inl err \<Rightarrow> Inl err
      | Inr amount \<Rightarrow>
          let u = msg_sender e;
              s1 = s\<lparr>encryptedBalances :=
                      (encryptedBalances s)(u := FHE_sub (encryptedBalances s u) amount)\<rparr>;
              s2 = s1\<lparr>encryptedBalances :=
                      (encryptedBalances s1)(to := FHE_add (encryptedBalances s1 to) amount)\<rparr>;
              s3 = FHE_allowThis e (encryptedBalances s2 u) s2;
              s4 = FHE_allow (encryptedBalances s3 u) u s3;
              s5 = FHE_allowThis e (encryptedBalances s4 to) s4;
              s6 = FHE_allow (encryptedBalances s5 to) to s5;
              s7 = s6\<lparr>hasDeposit := (hasDeposit s6)(to := True)\<rparr>;
              s8 = s7\<lparr>lastActivity := (lastActivity s7)(u := block_timestamp e)\<rparr>;
              s9 = s8\<lparr>lastActivity := (lastActivity s8)(to := block_timestamp e)\<rparr>
          in Inr (emit (EncryptedOperation u ''transfer'' (block_timestamp e)) s9))"

definition setEncryptedFlag :: "env \<Rightarrow> bool \<Rightarrow> state \<Rightarrow> error + state" where
  "setEncryptedFlag e flag s =
     (let u = msg_sender e;
          s1 = s\<lparr>encryptedFlags := (encryptedFlags s)(u := FHE_asEbool flag)\<rparr>;
          s2 = FHE_allowThis e (encryptedFlags s1 u) s1;
          s3 = FHE_allow (encryptedFlags s2 u) u s2;
          s4 = s3\<lparr>lastActivity := (lastActivity s3)(u := block_timestamp e)\<rparr>
      in Inr (emit (EncryptedOperation u ''set_flag'' (block_timestamp e)) s4))"

definition incrementScore :: "env \<Rightarrow> state \<Rightarrow> error + state" where
  "incrementScore e s =
     (if \<not> hasDeposit s (msg_sender e) then Inl NoDepositOnRecord
      else
        let u = msg_sender e;
            increment = FHE_asEuint32 1;
            s1 = s\<lparr>encryptedScores :=
                    (encryptedScores s)(u := FHE_add (encryptedScores s u) increment)\<rparr>;
            s2 = FHE_allowThis e (encryptedScores s1 u) s1;
            s3 = FHE_allow (encryptedScores s2 u) u s2;
            s4 = s3\<lparr>lastActivity := (lastActivity s3)(u := block_timestamp e)\<rparr>
        in Inr (emit (EncryptedOperation u ''increment'' (block_timestamp e)) s4))"

section \<open>Higher/Lower game on encrypted balances\<close>

definition startGame :: "env \<Rightarrow> bytes32 \<Rightarrow> bytes \<Rightarrow> state \<Rightarrow> error + state" where
  "startGame e encryptedWager inputProof s =
     (if \<not> \<not> isActive (games s (msg_sender e)) then Inl GameAlreadyActive
      else if \<not> hasDeposit s (msg_sender e) then Inl NoDepositOnRecord
      else case FHE_fromExternal e encryptedWager inputProof of
        Inl err \<Rightarrow> Inl err
      | Inr w \<Rightarrow>
          let u = msg_sender e;
              s1 = s\<lparr>encryptedBalances :=
                      (encryptedBalances s)(u := FHE_sub (encryptedBalances s u) w)\<rparr>;
              c = startGame_card e;
              s2 = s1\<lparr>games := (games s1)(u :=
                      \<lparr>player = u, wager = w, currentCard = c, score = FHE_asEuint32 0,
                       isActive = True, timestamp = block_timestamp e,
                       gameSecret = secretOf e c\<rparr>)\<rparr>;
              s3 = FHE_allowThis e (wager (games s2 u)) s2;
              s4 = FHE_allow (wager (games s3 u)) u s3;
              s5 = FHE_allowThis e (score (games s4 u)) s4;
              s6 = FHE_allow (score (games s5 u)) u s5;
              s7 = FHE_allowThis e (encryptedBalances s6 u) s6;
              s8 = FHE_allow (encryptedBalances s7 u) u s7
          in Inr (emit (GameStarted u c (block_timestamp e)) s8))"

text \<open>
  \<open>game\<close> is a storage reference to \<open>games[msg.sender]\<close>: every assignment through it
  writes the caller's record. The function returns \<open>(correct, newCard)\<close>.
\<close>

definition makeGuess :: "env \<Rightarrow> bool \<Rightarrow> state \<Rightarrow> error + (state \<times> bool \<times> uint8)" where
  "makeGuess e isHigher s =
     (let u = msg_sender e; g = games s u in
      if \<not> isActive g then Inl NoActiveGame
      else
        let newCard = makeGuess_card e (gameSecret g);
            correct = (if isHigher then currentCard g < newCard else newCard < currentCard g)
        in
        if correct then
          let s1 = s\<lparr>games := (games s)(u :=
                      (games s u)\<lparr>score := FHE_add (score (games s u)) (FHE_asEuint32 1)\<rparr>)\<rparr>;
              s2 = s1\<lparr>games := (games s1)(u := (games s1 u)\<lparr>currentCard := newCard\<rparr>)\<rparr>;
              multiplier = FHE_asEuint32 2;
              winnings = FHE_mul (wager (games s2 u)) multiplier;
              s3 = s2\<lparr>encryptedBalances :=
                      (encryptedBalances s2)(u := FHE_add (encryptedBalances s2 u) winnings)\<rparr>;
              s4 = FHE_allowThis e (encryptedBalances s3 u) s3;
              s5 = FHE_allow (encryptedBalances s4 u) u s4;
              s6 = FHE_allowThis e (score (games s5 u)) s5;
              s7 = FHE_allow (score (games s6 u)) u s6
          in Inr (emit (GameResult u newCard True 0 (block_timestamp e)) s7, correct, newCard)
        else
          let s1 = s\<lparr>games := (games s)(u := (games s u)\<lparr>isActive := False\<rparr>)\<rparr>
          in Inr (emit (GameResult u newCard False 0 (block_timestamp e)) s1, correct, newCard))"

definition cashOut :: "env \<Rightarrow> state \<Rightarrow> error + state" where
  "cashOut e s =
     (let u = msg_sender e in
      if \<not> isActive (games s u) then Inl NoActiveGame
      else
        let s1 = s\<lparr>games := (games s)(u := (games s u)\<lparr>isActive := False\<rparr>)\<rparr>
        in Inr (emit (GameEnded u (block_timestamp e)) s1))"

section \<open>Higher/Lower game on plaintext balances\<close>

text \<open>
  \<open>simpleBalances[msg.sender] -= _wager\<close> is a checked subtraction; the preceding
  \<open>require\<close> makes its panic unreachable, and the model keeps both.
\<close>

definition simpleStartGame :: "env \<Rightarrow> uint256 \<Rightarrow> state \<Rightarrow> error + state" where
  "simpleStartGame e w s =
     (if \<not> \<not> isActive (simpleGames s (msg_sender e)) then Inl GameAlreadyActive
      else if \<not> w \<le> simpleBalances s (msg_sender e) then Inl InsufficientBalance
      else
        let u = msg_sender e;
            c = simpleStartGame_card e;
            s1 = s\<lparr>simpleGames := (simpleGames s)(u :=
                    \<lparr>player = u, wager = w, currentCard = c, score = 0,
                     isActive = True, timestamp = block_timestamp e,
                     gameSecret = secretOf e c\<rparr>)\<rparr>
        in case checked_sub (simpleBalances s1 u) w of
             Inl err \<Rightarrow> Inl err
           | Inr b \<Rightarrow>
               let s2 = s1\<lparr>simpleBalances := (simpleBalances s1)(u := b)\<rparr>
               in Inr (emit (GameStarted u c (block_timestamp e)) s2))"

text \<open>
  In the winning branch \<open>game.score += 1\<close>, \<open>game.wager * 15\<close> and
  \<open>simpleBalances[msg.sender] += winnings\<close> are checked, in this order; the division
  by 10 rounds down.
\<close>

definition simpleMakeGuess ::
  "env \<Rightarrow> bool \<Rightarrow> state \<Rightarrow> error + (state \<times> bool \<times> uint8)" where
  "simpleMakeGuess e isHigher s =
     (let u = msg_sender e; g = simpleGames s u in
      if \<not> isActive g then Inl NoActiveGame
      else
        let newCard = simpleMakeGuess_card e (gameSecret g);
            correct = (if isHigher then currentCard g < newCard else newCard < currentCard g)
        in
        if correct then
          (case checked_add (score (simpleGames s u)) 1 of
             Inl err \<Rightarrow> Inl err
           | Inr sc \<Rightarrow>
          let s1 = s\<lparr>simpleGames := (simpleGames s)(u := (simpleGames s u)\<lparr>score := sc\<rparr>)\<rparr>;
              s2 = s1\<lparr>simpleGames :=
                      (simpleGames s1)(u := (simpleGames s1 u)\<lparr>currentCard := newCard\<rparr>)\<rparr>
          in
          (case checked_mul (wager (simpleGames s2 u)) 15 of
             Inl err \<Rightarrow> Inl err
           | Inr m \<Rightarrow>
          let winnings = m div 10 in
          (case checked_add (simpleBalances s2 u) winnings of
             Inl err \<Rightarrow> Inl err
           | Inr b \<Rightarrow>
          let s3 = s2\<lparr>simpleBalances := (simpleBalances s2)(u := b)\<rparr>
          in Inr (emit (GameResult u newCard True (score (simpleGames s3 u))
                          (block_timestamp e)) s3, correct, newCard))))
        else
          let s1 = s\<lparr>simpleGames := (simpleGames s)(u := (simpleGames s u)\<lparr>isActive := False\<rparr>)\<rparr>
          in Inr (emit (GameResult u newCard False (score (simpleGames s1 u))
                          (block_timestamp e)) s1, correct, newCard))"

definition simpleCashOut :: "env \<Rightarrow> state \<Rightarrow> error + state" where
  "simpleCashOut e s =
     (let u = msg_sender e in
      if \<not> isActive (simpleGames s u) then Inl NoActiveGame
      else case checked_add (simpleBalances s u) (wager (simpleGames s u)) of
        Inl err \<Rightarrow> Inl err
      | Inr b \<Rightarrow>
          let s1 = s\<lparr>simpleBalances := (simpleBalances s)(u := b)\<rparr>;
              s2 = s1\<lparr>simpleGames := (simpleGames s1)(u := (simpleGames s1 u)\<lparr>isActive := False\<rparr>)\<rparr>
          in Inr (emit (GameEnded u (block_timestamp e)) s2))"

section \<open>View functions\<close>

definition getEncryptedBalance :: "env \<Rightarrow> state \<Rightarrow> handle" where
  "getEncryptedBalance e s = encryptedBalances s (msg_sender e)"

definition getEncryptedScore :: "env \<Rightarrow> state \<Rightarrow> handle" where
  "getEncryptedScore e s = encryptedScores s (msg_sender e)"

definition getEncryptedFlag :: "env \<Rightarrow> state \<Rightarrow> handle" where
  "getEncryptedFlag e s = encryptedFlags s (msg_sender e)"

definition getSimpleBalance :: "env \<Rightarrow> state \<Rightarrow> uint256" where
  "getSimpleBalance e s = simpleBalances s (msg_sender e)"

definition hasBalanceDeposited :: "env \<Rightarrow> state \<Rightarrow> bool" where
  "hasBalanceDeposited e s = hasDeposit s (msg_sender e)"

text \<open>
  \<open>block.timestamp - lastActivityTime\<close> is checked; \<open>1 hours\<close> is 3600. The function
  returns \<open>(hasBalance, lastActivityTime, isActive)\<close>.
\<close>

definition getUserStatus :: "env \<Rightarrow> state \<Rightarrow> error + (bool \<times> uint256 \<times> bool)" where
  "getUserStatus e s =
     (let hasBalance = hasDeposit s (msg_sender e);
          lastActivityTime = lastActivity s (msg_sender e)
      in case checked_sub (block_timestamp e) lastActivityTime of
           Inl err \<Rightarrow> Inl err
         | Inr d \<Rightarrow> Inr (hasBalance, lastActivityTime, d < 3600))"

text \<open>Returns \<open>(currentCard, isActive, timestamp, score, wager)\<close>.\<close>

definition getCurrentSimpleGame ::
  "env \<Rightarrow> state \<Rightarrow> uint8 \<times> bool \<times> uint256 \<times> uint256 \<times> uint256" where
  "getCurrentSimpleGame e s =
     (let g = simpleGames s (msg_sender e)
      in (currentCard g, isActive g, timestamp g, score g, wager g))"

definition getEncryptedWager :: "env \<Rightarrow> state \<Rightarrow> handle" where
  "getEncryptedWager e s = wager (games s (msg_sender e))"

section \<open>Utility functions\<close>

text \<open>
  \<open>grantAllPermissions\<close> obtains no handle from the library: it grants on the handles
  it reads from storage, so each of its grants is accepted only if the contract is
  already allowed on the handle, and the first refused grant reverts the call.
\<close>

definition grantAllPermissions :: "env \<Rightarrow> state \<Rightarrow> error + state" where
  "grantAllPermissions e s =
     (let u = msg_sender e in
      case (if hasDeposit s u
            then (case ACL_allowThis e {} (encryptedBalances s u) s of
                    Inl err \<Rightarrow> Inl err
                  | Inr a \<Rightarrow> ACL_allow e {} (encryptedBalances a u) u a)
            else Inr s) of
        Inl err \<Rightarrow> Inl err
      | Inr s1 \<Rightarrow>
     (case ACL_allowThis e {} (encryptedScores s1 u) s1 of
        Inl err \<Rightarrow> Inl err
      | Inr s2 \<Rightarrow>
     (case ACL_allow e {} (encryptedScores s2 u) u s2 of
        Inl err \<Rightarrow> Inl err
      | Inr s3 \<Rightarrow>
     (case ACL_allowThis e {} (encryptedFlags s3 u) s3 of
        Inl err \<Rightarrow> Inl err
      | Inr s4 \<Rightarrow>
     (case ACL_allow e {} (encryptedFlags s4 u) u s4 of
        Inl err \<Rightarrow> Inl err
      | Inr s5 \<Rightarrow>
          let s6 = s5\<lparr>lastActivity := (lastActivity s5)(u := block_timestamp e)\<rparr>
          in Inr (emit (PermissionGranted u ''all'' (block_timestamp e)) s6))))))"

definition resetUserData :: "env \<Rightarrow> state \<Rightarrow> error + state" where
  "resetUserData e s =
     (let u = msg_sender e;
          s1 = s\<lparr>encryptedBalances := (encryptedBalances s)(u := FHE_asEuint32 0)\<rparr>;
          s2 = s1\<lparr>encryptedScores := (encryptedScores s1)(u := FHE_asEuint32 0)\<rparr>;
          s3 = s2\<lparr>encryptedFlags := (encryptedFlags s2)(u := FHE_asEbool False)\<rparr>;
          s4 = FHE_allowThis e (encryptedBalances s3 u) s3;
          s5 = FHE_allow (encryptedBalances s4 u) u s4;
          s6 = FHE_allowThis e (encryptedScores s5 u) s5;
          s7 = FHE_allow (encryptedScores s6 u) u s6;
          s8 = FHE_allowThis e (encryptedFlags s7 u) s7;
          s9 = FHE_allow (encryptedFlags s8 u) u s8;
          s10 = s9\<lparr>hasDeposit := (hasDeposit s9)(u := False)\<rparr>;
          s11 = s10\<lparr>lastActivity := (lastActivity s10)(u := block_timestamp e)\<rparr>
      in Inr (emit (EncryptedOperation u ''reset'' (block_timestamp e)) s11))"

section \<open>The operation surface\<close>

text \<open>
  One constructor for each state-changing external function with its arguments
  (\<open>msg.value\<close> first for the payable ones), and the dispatcher that runs a call and
  keeps the committed state.
\<close>

datatype operation =
    DepositEncrypted uint256 bytes32 bytes
  | SimpleDeposit uint256
  | FhevmDeposit uint256
  | PerformArithmetic bytes32 bytes32 bytes bytes
  | TransferEncrypted address bytes32 bytes
  | SetEncryptedFlag bool
  | IncrementScore
  | StartGame bytes32 bytes
  | MakeGuess bool
  | CashOut
  | SimpleStartGame uint256
  | SimpleMakeGuess bool
  | SimpleCashOut
  | GrantAllPermissions
  | ResetUserData

fun exec :: "env \<Rightarrow> operation \<Rightarrow> state \<Rightarrow> error + state" where
  "exec e (DepositEncrypted v x p) s = depositEncrypted e v x p s"
| "exec e (SimpleDeposit v) s = simpleDeposit e v s"
| "exec e (FhevmDeposit v) s = fhevmDeposit e v s"
| "exec e (PerformArithmetic a b pa pb) s = performArithmetic e a b pa pb s"
| "exec e (TransferEncrypted to x p) s = transferEncrypted e to x p s"
| "exec e (SetEncryptedFlag f) s = setEncryptedFlag e f s"
| "exec e IncrementScore s = incrementScore e s"
| "exec e (StartGame x p) s = startGame e x p s"
| "exec e (MakeGuess h) s = map_sum id fst (makeGuess e h s)"
| "exec e CashOut s = cashOut e s"
| "exec e (SimpleStartGame w) s = simpleStartGame e w s"
| "exec e (SimpleMakeGuess h) s = map_sum id fst (simpleMakeGuess e h s)"
| "exec e SimpleCashOut s = simpleCashOut e s"
| "exec e GrantAllPermissions s = grantAllPermissions e s"
| "exec e ResetUserData s = resetUserData e s"

text \<open>A sequence of calls, each in its own environment; it stops at the first revert.\<close>

fun run :: "(env \<times> operation) list \<Rightarrow> state \<Rightarrow> error + state" where
  "run [] s = Inr s"
| "run ((e, op) # rest) s = (case exec e op s of Inl err \<Rightarrow> Inl err | Inr s' \<Rightarrow> run rest s')"

text \<open>
  The state after one call: the committed state when the call succeeds, the unchanged
  state when it reverts.
\<close>

definition after_call :: "env \<Rightarrow> operation \<Rightarrow> state \<Rightarrow> state" where
  "after_call e op s = (case exec e op s of Inl err \<Rightarrow> s | Inr s' \<Rightarrow> s')"

text \<open>
  The grant invariant of the specification: every confidential slot that no longer holds
  its default handle holds a handle granted to the contract (at address \<open>this\<close>) and to
  the principal that owns the slot.
\<close>

definition handle_granted :: "address \<Rightarrow> state \<Rightarrow> address \<Rightarrow> handle \<Rightarrow> bool" where
  "handle_granted this s a h = (h = Uninit \<or> (isGranted s h this \<and> isGranted s h a))"

definition slots_granted :: "address \<Rightarrow> state \<Rightarrow> bool" where
  "slots_granted this s =
     (\<forall>a. handle_granted this s a (encryptedBalances s a)
        \<and> handle_granted this s a (encryptedScores s a)
        \<and> handle_granted this s a (encryptedFlags s a)
        \<and> handle_granted this s a (wager (games s a))
        \<and> handle_granted this s a (score (games s a)))"

section \<open>A concrete environment and concrete states\<close>

text \<open>
  The theorems below hold for every hash function, every proof verifier and every
  plaintext assignment. To run the model on concrete inputs these stand-ins are used: the
  hash of a byte string is its length, a proof is accepted when it is not empty, and the
  plaintext of an external ciphertext is its low 32 bits. The caller is account 1.
  The packed inputs of the four draws are 116, 148, 84 and 116 bytes long, so the draws
  of \<open>env1\<close> are 13 (\<open>startGame\<close>), 6 (\<open>makeGuess\<close>), 7 (\<open>simpleStartGame\<close>) and
  13 (\<open>simpleMakeGuess\<close>).
\<close>

definition pt1 :: "bytes32 \<Rightarrow> uint32" where
  "pt1 x = ucast x"

definition env1 :: env where
  "env1 = \<lparr>keccak256 = (\<lambda>bs. of_nat (length bs)),
            inputVerifier = (\<lambda>x p. p \<noteq> []),
            address_this = 4096,
            block_timestamp = 1700000000,
            block_prevrandao = 7,
            block_number = 42,
            msg_sender = 1\<rparr>"

text \<open>Account 1 with an encrypted balance of 5 and a recorded deposit, no game.\<close>

definition st_funded :: state where
  "st_funded = initial\<lparr>encryptedBalances := (\<lambda>_. Uninit)(1 := Trivial32 5),
                        hasDeposit := (\<lambda>_. False)(1 := True)\<rparr>"

text \<open>Account 1 in an active encrypted game whose current card is \<open>c\<close>.\<close>

definition st_game :: "uint8 \<Rightarrow> state" where
  "st_game c = st_funded\<lparr>games := (\<lambda>_. emptyGame)(1 :=
                  \<lparr>player = 1, wager = Input 2, currentCard = c, score = Trivial32 0,
                   isActive = True, timestamp = 1700000000, gameSecret = 53\<rparr>)\<rparr>"

text \<open>Account 1 with a plaintext balance \<open>b\<close> and no game.\<close>

definition st_plain :: "uint256 \<Rightarrow> state" where
  "st_plain b = initial\<lparr>simpleBalances := (\<lambda>_. 0)(1 := b)\<rparr>"

text \<open>
  Account 1 with a plaintext balance \<open>b\<close> in an active plaintext game with wager \<open>w\<close>
  whose current card is \<open>c\<close>.
\<close>

definition st_simple :: "uint256 \<Rightarrow> uint256 \<Rightarrow> uint8 \<Rightarrow> state" where
  "st_simple b w c = (st_plain b)\<lparr>simpleGames := (\<lambda>_. emptySimpleGame)(1 :=
                  \<lparr>player = 1, wager = w, currentCard = c, score = 0,
                   isActive = True, timestamp = 1700000000, gameSecret = 53\<rparr>)\<rparr>"

text \<open>
  Account 1 after \<open>performArithmetic\<close> and \<open>setEncryptedFlag\<close> on a fresh contract: a
  score and a flag of its own, no deposit, the balance slot still at its default.
\<close>

definition st_marked :: state where
  "st_marked = after_call env1 (SetEncryptedFlag True)
                 (after_call env1 (PerformArithmetic 3 1 [1] [1]) initial)"


section \<open>Auxiliary facts\<close>

lemma cardOf_unat: "unat (cardOf h) = unat (h mod 13) + 1"
proof -
  have lt: "unat (h mod 13) < 13"
    by (simp add: unat_mod)
  have "unat (h mod 13 + 1) = unat (h mod 13) + 1"
    using lt by (simp add: unat_word_ariths)
  then show ?thesis
    using lt by (simp add: cardOf_def unsigned_ucast_eq take_bit_nat_eq_self)
qed

lemma cardOf_range: "1 \<le> cardOf h \<and> cardOf h \<le> 13"
proof -
  have lt: "unat (h mod 13) < 13"
    by (simp add: unat_mod)
  show ?thesis using lt by (simp add: word_le_nat_alt cardOf_unat)
qed

lemma length_be_bytes [simp]: "length (be_bytes n w) = n" by (simp add: be_bytes_def)

lemmas packed_defs = packed_uint256_def packed_bytes32_def packed_address_def packed_uint8_def
lemmas card_defs = startGame_card_def makeGuess_card_def simpleStartGame_card_def simpleMakeGuess_card_def

lemma env1_startGame_card: "startGame_card env1 = 13" by (simp add: card_defs packed_defs env1_def cardOf_def)
lemma env1_makeGuess_card: "makeGuess_card env1 x = 6" by (simp add: card_defs packed_defs env1_def cardOf_def)
lemma env1_simpleStartGame_card: "simpleStartGame_card env1 = 7" by (simp add: card_defs packed_defs env1_def cardOf_def)
lemma env1_simpleMakeGuess_card: "simpleMakeGuess_card env1 x = 13" by (simp add: card_defs packed_defs env1_def cardOf_def)
lemma env1_secretOf: "secretOf env1 c = 53" by (simp add: secretOf_def packed_defs env1_def cardOf_def)

lemmas fhe_defs = FHE_allow_def FHE_allowThis_def FHE_add_def FHE_sub_def FHE_mul_def
  FHE_asEuint32_def FHE_asEbool_def FHE_fromExternal_def emit_def
lemmas acl_defs = ACL_allow_def ACL_allowThis_def isGranted_def
lemmas op_defs = depositEncrypted_def simpleDeposit_def fhevmDeposit_def performArithmetic_def
  transferEncrypted_def setEncryptedFlag_def incrementScore_def startGame_def makeGuess_def
  cashOut_def simpleStartGame_def simpleMakeGuess_def simpleCashOut_def grantAllPermissions_def
  resetUserData_def

lemmas checked_defs = checked_add_def checked_sub_def checked_mul_def

lemma env1_simps:
  "msg_sender env1 = 1" "address_this env1 = 4096" "block_timestamp env1 = 1700000000"
  "inputVerifier env1 x p = (p \<noteq> [])"
  by (simp_all add: env1_def)
lemmas ex_defs = env1_simps env1_startGame_card env1_makeGuess_card
  env1_simpleStartGame_card env1_simpleMakeGuess_card env1_secretOf st_funded_def st_game_def st_plain_def st_simple_def initial_def


section \<open>Card draws stay in range\<close>

text \<open>
  Claim C9. Every card produced by a draw lies between 1 and 13 inclusive, on both paths
  and for every hash function and every value of the entropy inputs: the card stored by a
  successful \<open>startGame\<close> or \<open>simpleStartGame\<close> and the card returned by a successful
  \<open>makeGuess\<close> or \<open>simpleMakeGuess\<close> (which is also the card stored after a correct
  guess).
\<close>

theorem draws_in_range:
  "(startGame e x p s = Inr s' \<longrightarrow>
      1 \<le> currentCard (games s' (msg_sender e)) \<and> currentCard (games s' (msg_sender e)) \<le> 13)
 \<and> (makeGuess e h s = Inr (t', ok, c) \<longrightarrow> 1 \<le> c \<and> c \<le> 13)
 \<and> (simpleStartGame e w s = Inr u' \<longrightarrow>
      1 \<le> currentCard (simpleGames u' (msg_sender e)) \<and> currentCard (simpleGames u' (msg_sender e)) \<le> 13)
 \<and> (simpleMakeGuess e h s = Inr (v', ok', c') \<longrightarrow> 1 \<le> c' \<and> c' \<le> 13)"
proof (intro conjI impI)
  assume "startGame e x p s = Inr s'"
  then have "currentCard (games s' (msg_sender e)) = startGame_card e"
    by (auto simp: startGame_def Let_def FHE_allow_def FHE_allowThis_def emit_def split: if_splits sum.splits)
  then show "1 \<le> currentCard (games s' (msg_sender e))" "currentCard (games s' (msg_sender e)) \<le> 13"
    by (simp_all add: startGame_card_def cardOf_range)
next
  assume "makeGuess e h s = Inr (t', ok, c)"
  then have "c = makeGuess_card e (gameSecret (games s (msg_sender e)))"
    by (auto simp: makeGuess_def Let_def split: if_splits)
  then show "1 \<le> c" "c \<le> 13"
    by (simp_all add: makeGuess_card_def cardOf_range)
next
  assume "simpleStartGame e w s = Inr u'"
  then have "currentCard (simpleGames u' (msg_sender e)) = simpleStartGame_card e"
    by (auto simp: simpleStartGame_def Let_def emit_def split: if_splits sum.splits)
  then show "1 \<le> currentCard (simpleGames u' (msg_sender e))" "currentCard (simpleGames u' (msg_sender e)) \<le> 13"
    by (simp_all add: simpleStartGame_card_def cardOf_range)
next
  assume "simpleMakeGuess e h s = Inr (v', ok', c')"
  then have "c' = simpleMakeGuess_card e (gameSecret (simpleGames s (msg_sender e)))"
    by (auto simp: simpleMakeGuess_def Let_def split: if_splits sum.splits)
  then show "1 \<le> c'" "c' \<le> 13"
    by (simp_all add: simpleMakeGuess_card_def cardOf_range)
qed


theorem draws_in_range_witness:
  "(\<exists>s'. startGame env1 2 [1] st_funded = Inr s'
         \<and> 1 \<le> currentCard (games s' (msg_sender env1)) \<and> currentCard (games s' (msg_sender env1)) \<le> 13)
 \<and> (\<exists>t'. makeGuess env1 True (st_game 13) = Inr (t', False, 6)) \<and> (1::uint8) \<le> 6 \<and> (6::uint8) \<le> 13
 \<and> (\<exists>u'. simpleStartGame env1 10 (st_plain 100) = Inr u'
         \<and> 1 \<le> currentCard (simpleGames u' (msg_sender env1)) \<and> currentCard (simpleGames u' (msg_sender env1)) \<le> 13)
 \<and> (\<exists>v'. simpleMakeGuess env1 True (st_simple 100 10 7) = Inr (v', True, 13)) \<and> (1::uint8) \<le> 13 \<and> (13::uint8) \<le> 13"
proof -
  have "\<exists>s'. startGame env1 2 [1] st_funded = Inr s'"
    by (simp add: startGame_def fhe_defs ex_defs emptyGame_def Let_def)
  then obtain s' where a: "startGame env1 2 [1] st_funded = Inr s'"
    by blast
  have "\<exists>t'. makeGuess env1 True (st_game 13) = Inr (t', False, 6)"
    by (simp add: makeGuess_def fhe_defs ex_defs emptyGame_def Let_def)
  then obtain t' where b: "makeGuess env1 True (st_game 13) = Inr (t', False, 6)"
    by blast
  let ?s = "st_plain 100"
  have "\<exists>u'. simpleStartGame env1 10 ?s = Inr u'"
    by (simp add: simpleStartGame_def fhe_defs ex_defs emptySimpleGame_def Let_def checked_sub_def)
  then obtain u' where c: "simpleStartGame env1 10 ?s = Inr u'"
    by blast
  have "\<exists>v'. simpleMakeGuess env1 True (st_simple 100 10 7) = Inr (v', True, 13)"
    by (simp add: simpleMakeGuess_def fhe_defs ex_defs Let_def checked_add_def checked_mul_def)
  then obtain v' where d: "simpleMakeGuess env1 True (st_simple 100 10 7) = Inr (v', True, 13)"
    by blast
  from a draws_in_range [where e = env1 and x = 2 and p = "[1]" and s = st_funded and s' = s'] have A:
    "1 \<le> currentCard (games s' (msg_sender env1)) \<and> currentCard (games s' (msg_sender env1)) \<le> 13"
    by blast
  from b draws_in_range [where e = env1 and h = True and s = "st_game 13" and t' = t' and ok = False and c = 6] have B:
    "(1::uint8) \<le> 6 \<and> (6::uint8) \<le> 13"
    by blast
  from c draws_in_range [where e = env1 and s = ?s and w = 10 and u' = u'] have C:
    "1 \<le> currentCard (simpleGames u' (msg_sender env1)) \<and> currentCard (simpleGames u' (msg_sender env1)) \<le> 13"
    by blast
  from d draws_in_range [where e = env1 and h = True and s = "st_simple 100 10 7" and v' = v' and ok' = True and c' = 13] have D:
    "(1::uint8) \<le> 13 \<and> (13::uint8) \<le> 13"
    by blast
  from a b c d A B C D show ?thesis by blast
qed

section \<open>Ties\<close>

text \<open>
  Claim C4. For every active game on either ledger variant, when the newly drawn card
  equals the current card the guess is incorrect, whether the caller said higher or
  lower: the call succeeds, returns \<open>correct = false\<close> together with the drawn card, and
  deactivates the game.
\<close>

theorem tie_is_incorrect:
  "(isActive (games s (msg_sender e))
      \<and> makeGuess_card e (gameSecret (games s (msg_sender e))) = currentCard (games s (msg_sender e))
    \<longrightarrow> (\<exists>s'. makeGuess e isHigher s = Inr (s', False, currentCard (games s (msg_sender e)))
             \<and> \<not> isActive (games s' (msg_sender e))))
 \<and> (isActive (simpleGames s (msg_sender e))
      \<and> simpleMakeGuess_card e (gameSecret (simpleGames s (msg_sender e)))
          = currentCard (simpleGames s (msg_sender e))
    \<longrightarrow> (\<exists>s'. simpleMakeGuess e isHigher s = Inr (s', False, currentCard (simpleGames s (msg_sender e)))
             \<and> \<not> isActive (simpleGames s' (msg_sender e))))"
  by (simp add: makeGuess_def simpleMakeGuess_def Let_def emit_def)

theorem tie_is_incorrect_witness:
  "isActive (games (st_game 6) (msg_sender env1))
 \<and> makeGuess_card env1 (gameSecret (games (st_game 6) (msg_sender env1)))
      = currentCard (games (st_game 6) (msg_sender env1))
 \<and> (\<exists>s'. makeGuess env1 True (st_game 6) = Inr (s', False, currentCard (games (st_game 6) (msg_sender env1)))
             \<and> \<not> isActive (games s' (msg_sender env1)))
 \<and> isActive (simpleGames (st_simple 100 10 13) (msg_sender env1))
 \<and> simpleMakeGuess_card env1 (gameSecret (simpleGames (st_simple 100 10 13) (msg_sender env1)))
      = currentCard (simpleGames (st_simple 100 10 13) (msg_sender env1))
 \<and> (\<exists>s'. simpleMakeGuess env1 False (st_simple 100 10 13)
            = Inr (s', False, currentCard (simpleGames (st_simple 100 10 13) (msg_sender env1)))
             \<and> \<not> isActive (simpleGames s' (msg_sender env1)))"
proof -
  have a: "isActive (games (st_game 6) (msg_sender env1))
     \<and> makeGuess_card env1 (gameSecret (games (st_game 6) (msg_sender env1)))
      = currentCard (games (st_game 6) (msg_sender env1))"
    by (simp add: ex_defs)
  have b: "isActive (simpleGames (st_simple 100 10 13) (msg_sender env1))
     \<and> simpleMakeGuess_card env1 (gameSecret (simpleGames (st_simple 100 10 13) (msg_sender env1)))
      = currentCard (simpleGames (st_simple 100 10 13) (msg_sender env1))"
    by (simp add: ex_defs)
  from a b tie_is_incorrect [where e = env1 and s = "st_game 6" and isHigher = True]
    tie_is_incorrect [where e = env1 and s = "st_simple 100 10 13" and isHigher = False]
  show ?thesis by blast
qed

section \<open>Starting a plaintext game\<close>

text \<open>
  Claim C8. On the plaintext path, for a caller with no active game,
  \<open>simpleStartGame(wager)\<close> fails with \<open>InsufficientBalance\<close> whenever the caller's
  simple balance is strictly less than the wager. Otherwise it succeeds, debits exactly
  the wager at once (without wrap-around: new balance plus wager is the old balance) and
  stores an active game record holding the wager, score zero and the drawn starting card,
  which lies between 1 and 13.
\<close>

theorem simpleStartGame_debit:
  assumes "\<not> isActive (simpleGames s (msg_sender e))"
  shows "(simpleBalances s (msg_sender e) < w \<longrightarrow> simpleStartGame e w s = Inl InsufficientBalance)
   \<and> (w \<le> simpleBalances s (msg_sender e) \<longrightarrow>
        (\<exists>s'. simpleStartGame e w s = Inr s'
           \<and> simpleBalances s' (msg_sender e) = simpleBalances s (msg_sender e) - w
           \<and> unat (simpleBalances s' (msg_sender e)) + unat w = unat (simpleBalances s (msg_sender e))
           \<and> simpleGames s' (msg_sender e) =
               \<lparr>player = msg_sender e, wager = w, currentCard = simpleStartGame_card e, score = 0,
                isActive = True, timestamp = block_timestamp e,
                gameSecret = secretOf e (simpleStartGame_card e)\<rparr>
           \<and> 1 \<le> simpleStartGame_card e \<and> simpleStartGame_card e \<le> 13))"
proof (intro conjI impI)
  assume "simpleBalances s (msg_sender e) < w"
  then show "simpleStartGame e w s = Inl InsufficientBalance"
    using assms by (simp add: simpleStartGame_def not_le)
next
  assume le: "w \<le> simpleBalances s (msg_sender e)"
  then have n: "unat w \<le> unat (simpleBalances s (msg_sender e))"
    by (simp add: word_le_nat_alt)
  then have u: "unat (simpleBalances s (msg_sender e) - w) + unat w = unat (simpleBalances s (msg_sender e))"
    using le by (simp add: unat_sub)
  show "\<exists>s'. simpleStartGame e w s = Inr s'
           \<and> simpleBalances s' (msg_sender e) = simpleBalances s (msg_sender e) - w
           \<and> unat (simpleBalances s' (msg_sender e)) + unat w = unat (simpleBalances s (msg_sender e))
           \<and> simpleGames s' (msg_sender e) =
               \<lparr>player = msg_sender e, wager = w, currentCard = simpleStartGame_card e, score = 0,
                isActive = True, timestamp = block_timestamp e,
                gameSecret = secretOf e (simpleStartGame_card e)\<rparr>
           \<and> 1 \<le> simpleStartGame_card e \<and> simpleStartGame_card e \<le> 13"
    using assms le n u
    by (simp add: simpleStartGame_def Let_def checked_sub_def emit_def simpleStartGame_card_def cardOf_range)
qed

theorem simpleStartGame_debit_witness:
  "\<not> isActive (simpleGames (st_plain 100) (msg_sender env1))
 \<and> simpleBalances (st_plain 100) (msg_sender env1) < 101
 \<and> simpleStartGame env1 101 (st_plain 100) = Inl InsufficientBalance
 \<and> 10 \<le> simpleBalances (st_plain 100) (msg_sender env1)
 \<and> (\<exists>s'. simpleStartGame env1 10 (st_plain 100) = Inr s'
        \<and> simpleBalances s' (msg_sender env1) = 90
        \<and> isActive (simpleGames s' (msg_sender env1))
        \<and> currentCard (simpleGames s' (msg_sender env1)) = 7)"
proof -
  have a: "\<not> isActive (simpleGames (st_plain 100) (msg_sender env1))"
    by (simp add: ex_defs emptySimpleGame_def)
  have b: "simpleBalances (st_plain 100) (msg_sender env1) = 100"
    by (simp add: ex_defs)
  from simpleStartGame_debit [OF a, of 101] simpleStartGame_debit [OF a, of 10] a b
  show ?thesis by (auto simp: ex_defs)
qed

section \<open>Settling a plaintext guess\<close>

text \<open>
  Claim C5, as stated, fails on the code: \<open>game.score += 1\<close>, \<open>game.wager * 15\<close> and
  \<open>simpleBalances[msg.sender] += winnings\<close> are checked \<open>uint256\<close> operations, so a
  correct guess in an active game whose wager is \<open>2 ^ 255\<close> reverts with an arithmetic
  panic: no score is added and nothing is credited.
\<close>

theorem simpleMakeGuess_overflow_counterexample:
  "isActive (simpleGames (st_simple 0 (2 ^ 255) 7) (msg_sender env1))
 \<and> currentCard (simpleGames (st_simple 0 (2 ^ 255) 7) (msg_sender env1))
     < simpleMakeGuess_card env1 (gameSecret (simpleGames (st_simple 0 (2 ^ 255) 7) (msg_sender env1)))
 \<and> simpleMakeGuess env1 True (st_simple 0 (2 ^ 255) 7) = Inl ArithmeticPanic"
  by (simp add: simpleMakeGuess_def ex_defs Let_def checked_add_def checked_mul_def)

text \<open>
  Claim C5, amended. On the plaintext path, for every active game in which none of
  \<open>score + 1\<close>, \<open>wager * 15\<close> and \<open>balance + (wager * 15) / 10\<close> exceeds the range of
  \<open>uint256\<close>, a correct guess increments the game's score by exactly 1, sets
  \<open>currentCard\<close> to the newly drawn card, credits exactly \<open>(wager * 15) / 10\<close> (rounded
  down) to the caller's simple balance and leaves the record active. When one of the
  three does not fit, the call reverts with an arithmetic panic. An incorrect guess sets
  \<open>isActive\<close> to false and credits nothing.
\<close>

theorem simpleMakeGuess_settles:
  assumes "isActive (simpleGames s (msg_sender e))"
      and "g = simpleGames s (msg_sender e)"
      and "b = simpleBalances s (msg_sender e)"
      and "c = simpleMakeGuess_card e (gameSecret g)"
      and "correct = (if isHigher then currentCard g < c else c < currentCard g)"
      and "fits = (unat (score g) + 1 < 2 ^ 256 \<and> unat (wager g) * 15 < 2 ^ 256
                   \<and> unat b + unat (wager g) * 15 div 10 < 2 ^ 256)"
  shows "(correct \<and> fits \<longrightarrow>
            (\<exists>s'. simpleMakeGuess e isHigher s = Inr (s', True, c)
               \<and> unat (score (simpleGames s' (msg_sender e))) = unat (score g) + 1
               \<and> currentCard (simpleGames s' (msg_sender e)) = c
               \<and> unat (simpleBalances s' (msg_sender e)) = unat b + unat (wager g) * 15 div 10
               \<and> isActive (simpleGames s' (msg_sender e))
               \<and> wager (simpleGames s' (msg_sender e)) = wager g))
       \<and> (correct \<and> \<not> fits \<longrightarrow> simpleMakeGuess e isHigher s = Inl ArithmeticPanic)
       \<and> (\<not> correct \<longrightarrow>
            (\<exists>s'. simpleMakeGuess e isHigher s = Inr (s', False, c)
               \<and> \<not> isActive (simpleGames s' (msg_sender e))
               \<and> simpleBalances s' = simpleBalances s
               \<and> score (simpleGames s' (msg_sender e)) = score g
               \<and> currentCard (simpleGames s' (msg_sender e)) = currentCard g))"
proof (intro conjI impI)
  assume "\<not> correct"
  then show "\<exists>s'. simpleMakeGuess e isHigher s = Inr (s', False, c)
               \<and> \<not> isActive (simpleGames s' (msg_sender e))
               \<and> simpleBalances s' = simpleBalances s
               \<and> score (simpleGames s' (msg_sender e)) = score g
               \<and> currentCard (simpleGames s' (msg_sender e)) = currentCard g"
    using assms by (cases isHigher; simp add: simpleMakeGuess_def Let_def emit_def)
next
  assume "correct \<and> \<not> fits"
  then show "simpleMakeGuess e isHigher s = Inl ArithmeticPanic"
    using assms
    by (cases isHigher; auto simp: simpleMakeGuess_def Let_def emit_def checked_add_def checked_mul_def
        unat_div unat_word_ariths)
next
  assume cf: "correct \<and> fits"
  then have f1: "unat (score g) + 1 < 2 ^ 256" and f2: "unat (wager g) * 15 < 2 ^ 256"
    and f3: "unat b + unat (wager g) * 15 div 10 < 2 ^ 256"
    using assms(6) by simp_all
  have m: "unat (wager g * 15) = unat (wager g) * 15"
    using f2 by (simp add: unat_word_ariths)
  have d: "unat (wager g * 15 div 10) = unat (wager g) * 15 div 10"
    by (simp add: unat_div m)
  have a1: "unat (score g + 1) = unat (score g) + 1"
    using f1 by (simp add: unat_word_ariths)
  have a2: "unat (b + wager g * 15 div 10) = unat b + unat (wager g) * 15 div 10"
    using f3 d by (simp add: unat_word_ariths)
  show "\<exists>s'. simpleMakeGuess e isHigher s = Inr (s', True, c)
               \<and> unat (score (simpleGames s' (msg_sender e))) = unat (score g) + 1
               \<and> currentCard (simpleGames s' (msg_sender e)) = c
               \<and> unat (simpleBalances s' (msg_sender e)) = unat b + unat (wager g) * 15 div 10
               \<and> isActive (simpleGames s' (msg_sender e))
               \<and> wager (simpleGames s' (msg_sender e)) = wager g"
    using assms(1-5) cf f1 f2 f3 d a1 a2
    by (cases isHigher; simp add: simpleMakeGuess_def Let_def emit_def checked_add_def checked_mul_def)
qed

theorem simpleMakeGuess_settles_witness:
  "isActive (simpleGames (st_simple 100 10 7) (msg_sender env1))
 \<and> (\<exists>s'. simpleMakeGuess env1 True (st_simple 100 10 7) = Inr (s', True, 13)
        \<and> unat (score (simpleGames s' (msg_sender env1))) = 1
        \<and> currentCard (simpleGames s' (msg_sender env1)) = 13
        \<and> unat (simpleBalances s' (msg_sender env1)) = 115
        \<and> isActive (simpleGames s' (msg_sender env1))
        \<and> wager (simpleGames s' (msg_sender env1)) = 10)
 \<and> (\<exists>s'. simpleMakeGuess env1 False (st_simple 100 10 7) = Inr (s', False, 13)
        \<and> \<not> isActive (simpleGames s' (msg_sender env1))
        \<and> simpleBalances s' = simpleBalances (st_simple 100 10 7)
        \<and> score (simpleGames s' (msg_sender env1)) = 0
        \<and> currentCard (simpleGames s' (msg_sender env1)) = 7)
 \<and> isActive (simpleGames (st_simple 0 (2 ^ 255) 7) (msg_sender env1))
 \<and> simpleMakeGuess env1 True (st_simple 0 (2 ^ 255) 7) = Inl ArithmeticPanic"
proof -
  have a: "isActive (simpleGames (st_simple 100 10 7) (msg_sender env1))"
    by (simp add: ex_defs)
  have b: "isActive (simpleGames (st_simple 0 (2 ^ 255) 7) (msg_sender env1))"
    by (simp add: ex_defs)
  have w1: "\<exists>s'. simpleMakeGuess env1 True (st_simple 100 10 7) = Inr (s', True, 13)
        \<and> unat (score (simpleGames s' (msg_sender env1))) = 1
        \<and> currentCard (simpleGames s' (msg_sender env1)) = 13
        \<and> unat (simpleBalances s' (msg_sender env1)) = 115
        \<and> isActive (simpleGames s' (msg_sender env1))
        \<and> wager (simpleGames s' (msg_sender env1)) = 10"
    using simpleMakeGuess_settles [where e = env1 and s = "st_simple 100 10 7" and isHigher = True,
        OF a refl refl refl refl refl]
    by (simp add: ex_defs)
  have w2: "\<exists>s'. simpleMakeGuess env1 False (st_simple 100 10 7) = Inr (s', False, 13)
        \<and> \<not> isActive (simpleGames s' (msg_sender env1))
        \<and> simpleBalances s' = simpleBalances (st_simple 100 10 7)
        \<and> score (simpleGames s' (msg_sender env1)) = 0
        \<and> currentCard (simpleGames s' (msg_sender env1)) = 7"
    using simpleMakeGuess_settles [where e = env1 and s = "st_simple 100 10 7" and isHigher = False,
        OF a refl refl refl refl refl]
    by (simp add: ex_defs)
  have w3: "simpleMakeGuess env1 True (st_simple 0 (2 ^ 255) 7) = Inl ArithmeticPanic"
    using simpleMakeGuess_settles [where e = env1 and s = "st_simple 0 (2 ^ 255) 7" and isHigher = True,
        OF b refl refl refl refl refl]
    by (simp add: ex_defs)
  from a b w1 w2 w3 show ?thesis by blast
qed

section \<open>The arithmetic demonstration\<close>

text \<open>
  Claim C1, as stated, fails on the code: the stored combination is not independent of
  the order of the operands. With plaintexts 3 and 1 the stored score decrypts to
  \<open>4 + 2 + 3 = 9\<close>; with the same operands swapped it decrypts to
  \<open>4 + (1 - 3) + 3 = 5\<close>.
\<close>

theorem performArithmetic_order_counterexample:
  "decrypt32 pt1 (encryptedScores
     (after_call env1 (PerformArithmetic 3 1 [1] [1]) initial) (msg_sender env1)) = 9
 \<and> decrypt32 pt1 (encryptedScores
     (after_call env1 (PerformArithmetic 1 3 [1] [1]) initial) (msg_sender env1)) = 5"
  by (simp add: after_call_def performArithmetic_def fhe_defs env1_simps Let_def pt1_def
      initial_def)

text \<open>
  Claim C1, amended. For every pair of validated operands \<open>a\<close> and \<open>b\<close>,
  \<open>performArithmetic\<close> succeeds and stores into the caller's score a handle, granted to
  the contract and to the caller, whose plaintext is \<open>(a + b) + (a - b) + (a * b)\<close>
  over 32-bit values, that is \<open>2 * a + a * b\<close> modulo \<open>2 ^ 32\<close>. Swapping the two
  operands yields the same stored plaintext exactly when \<open>2 * a = 2 * b\<close> modulo
  \<open>2 ^ 32\<close>; the combination is not order-independent in general.
\<close>

theorem performArithmetic_score:
  assumes "inputVerifier e a proofA" and "inputVerifier e b proofB"
  shows "\<exists>s' t'. performArithmetic e a b proofA proofB s = Inr s'
           \<and> performArithmetic e b a proofB proofA s = Inr t'
           \<and> decrypt32 pt (encryptedScores s' (msg_sender e))
               = (pt a + pt b) + (pt a - pt b) + pt a * pt b
           \<and> decrypt32 pt (encryptedScores s' (msg_sender e)) = 2 * pt a + pt a * pt b
           \<and> isGranted s' (encryptedScores s' (msg_sender e)) (address_this e)
           \<and> isGranted s' (encryptedScores s' (msg_sender e)) (msg_sender e)
           \<and> (decrypt32 pt (encryptedScores t' (msg_sender e))
                = decrypt32 pt (encryptedScores s' (msg_sender e))) = (2 * pt a = 2 * pt b)"
  using assms
  by (auto simp add: performArithmetic_def fhe_defs Let_def isGranted_def algebra_simps)

theorem performArithmetic_score_witness:
  "inputVerifier env1 3 [1] \<and> inputVerifier env1 1 [1]
 \<and> (\<exists>s' t'. performArithmetic env1 3 1 [1] [1] initial = Inr s'
           \<and> performArithmetic env1 1 3 [1] [1] initial = Inr t'
           \<and> decrypt32 pt1 (encryptedScores s' (msg_sender env1)) = 9
           \<and> decrypt32 pt1 (encryptedScores t' (msg_sender env1)) \<noteq> 9
           \<and> isGranted s' (encryptedScores s' (msg_sender env1)) (address_this env1)
           \<and> isGranted s' (encryptedScores s' (msg_sender env1)) (msg_sender env1))"
proof -
  have a: "inputVerifier env1 3 [1]" and b: "inputVerifier env1 1 [1]"
    by (simp_all add: env1_simps)
  from performArithmetic_score [OF a b, where pt = pt1 and s = initial] a b
  show ?thesis
    by (auto simp add: pt1_def)
qed

section \<open>Debits on the confidential path\<close>

text \<open>
  Claim C3. On the confidential path a debit never fails with \<open>InsufficientBalance\<close>,
  whatever the balance and the amount: \<open>transferEncrypted\<close> and \<open>startGame\<close> have no
  such check. When their preconditions hold (recipient other than the caller, respectively
  no active game; a recorded deposit; an accepted proof) the call succeeds and the
  plaintext of the caller's new balance is the old one minus the amount in 32-bit
  arithmetic, that is \<open>(balance - amount) mod 2 ^ 32\<close> over the integers: when the
  amount exceeds the balance the result wraps around and no error is reported.
\<close>

theorem confidential_debit_wraps:
  "transferEncrypted e to x p s \<noteq> Inl InsufficientBalance
 \<and> startGame e x p s \<noteq> Inl InsufficientBalance
 \<and> (to \<noteq> msg_sender e \<and> hasDeposit s (msg_sender e) \<and> inputVerifier e x p \<longrightarrow>
      (\<exists>s'. transferEncrypted e to x p s = Inr s'
         \<and> decrypt32 pt (encryptedBalances s' (msg_sender e))
             = decrypt32 pt (encryptedBalances s (msg_sender e)) - pt x
         \<and> uint (decrypt32 pt (encryptedBalances s' (msg_sender e)))
             = (uint (decrypt32 pt (encryptedBalances s (msg_sender e))) - uint (pt x)) mod 2 ^ 32))
 \<and> (\<not> isActive (games s (msg_sender e)) \<and> hasDeposit s (msg_sender e) \<and> inputVerifier e x p \<longrightarrow>
      (\<exists>s'. startGame e x p s = Inr s'
         \<and> decrypt32 pt (encryptedBalances s' (msg_sender e))
             = decrypt32 pt (encryptedBalances s (msg_sender e)) - pt x
         \<and> uint (decrypt32 pt (encryptedBalances s' (msg_sender e)))
             = (uint (decrypt32 pt (encryptedBalances s (msg_sender e))) - uint (pt x)) mod 2 ^ 32))"
proof -
  have w: "uint (a - b) = (uint a - uint b) mod 2 ^ 32" for a b :: uint32
    by (simp add: uint_word_ariths)
  show ?thesis
    by (auto simp add: transferEncrypted_def startGame_def fhe_defs Let_def w
        split: if_splits)
qed

theorem confidential_debit_wraps_witness:
  "2 \<noteq> msg_sender env1 \<and> hasDeposit st_funded (msg_sender env1) \<and> inputVerifier env1 10 [1]
 \<and> \<not> isActive (games st_funded (msg_sender env1))
 \<and> decrypt32 pt1 (encryptedBalances st_funded (msg_sender env1)) = 5 \<and> pt1 10 = 10
 \<and> (\<exists>s'. transferEncrypted env1 2 10 [1] st_funded = Inr s'
        \<and> uint (decrypt32 pt1 (encryptedBalances s' (msg_sender env1))) = 4294967291)
 \<and> (\<exists>s'. startGame env1 10 [1] st_funded = Inr s'
        \<and> uint (decrypt32 pt1 (encryptedBalances s' (msg_sender env1))) = 4294967291)"
proof -
  have a: "2 \<noteq> msg_sender env1 \<and> hasDeposit st_funded (msg_sender env1) \<and> inputVerifier env1 10 [1]"
    by (simp add: ex_defs)
  have b: "\<not> isActive (games st_funded (msg_sender env1))"
    by (simp add: ex_defs emptyGame_def)
  have c: "decrypt32 pt1 (encryptedBalances st_funded (msg_sender env1)) = 5 \<and> pt1 10 = 10"
    by (simp add: ex_defs pt1_def)
  from confidential_debit_wraps [where e = env1 and to = 2 and x = 10 and p = "[1]"
      and s = st_funded and pt = pt1] a b c
  show ?thesis by auto
qed

section \<open>Resetting an account\<close>

text \<open>
  Claim C2, as stated, fails on the code: \<open>resetUserData\<close> resets the encrypted data
  only. An account that deposited 5 on the plaintext path and then resets still reads 5
  from \<open>getSimpleBalance\<close>, not the default zero, although the reset took place
  (\<open>hasDeposit\<close> went from true to false).
\<close>

theorem reset_simple_balance_counterexample:
  "getSimpleBalance env1
     (after_call env1 ResetUserData (after_call env1 (SimpleDeposit 5) initial)) = 5
 \<and> hasBalanceDeposited env1 (after_call env1 (SimpleDeposit 5) initial)
 \<and> \<not> hasBalanceDeposited env1
     (after_call env1 ResetUserData (after_call env1 (SimpleDeposit 5) initial))"
  by (simp add: after_call_def simpleDeposit_def resetUserData_def getSimpleBalance_def
      hasBalanceDeposited_def checked_add_def fhe_defs env1_simps initial_def Let_def)

text \<open>
  Claim C2, amended. For every account state, \<open>resetUserData\<close> succeeds, and every later
  query by the same caller of the encrypted balance, score and flag returns a handle
  that decrypts to zero (false for the flag), and \<open>hasDeposited\<close> is false. The reset
  does not touch the plaintext ledger or the game records: \<open>getSimpleBalance\<close>,
  \<open>getCurrentSimpleGame\<close> and \<open>getEncryptedWager\<close> return what they returned before
  the reset.
\<close>

theorem resetUserData_queries:
  assumes "msg_sender q = msg_sender e"
  shows "\<exists>s'. resetUserData e s = Inr s'
     \<and> getEncryptedBalance q s' = Trivial32 0 \<and> decrypt32 pt (getEncryptedBalance q s') = 0
     \<and> getEncryptedScore q s' = Trivial32 0 \<and> decrypt32 pt (getEncryptedScore q s') = 0
     \<and> getEncryptedFlag q s' = TrivialBool False \<and> \<not> decryptBool pt (getEncryptedFlag q s')
     \<and> \<not> hasBalanceDeposited q s'
     \<and> getSimpleBalance q s' = getSimpleBalance q s
     \<and> getCurrentSimpleGame q s' = getCurrentSimpleGame q s
     \<and> getEncryptedWager q s' = getEncryptedWager q s"
  using assms
  by (simp add: resetUserData_def fhe_defs Let_def getEncryptedBalance_def getEncryptedScore_def
      getEncryptedFlag_def hasBalanceDeposited_def getSimpleBalance_def getCurrentSimpleGame_def
      getEncryptedWager_def decryptBool_def)

theorem resetUserData_queries_witness:
  "msg_sender (env1\<lparr>block_number := 43\<rparr>) = msg_sender env1
 \<and> (\<exists>s'. resetUserData env1 (st_game 6) = Inr s'
       \<and> decrypt32 pt1 (getEncryptedBalance (env1\<lparr>block_number := 43\<rparr>) s') = 0
       \<and> decrypt32 pt1 (getEncryptedScore (env1\<lparr>block_number := 43\<rparr>) s') = 0
       \<and> \<not> decryptBool pt1 (getEncryptedFlag (env1\<lparr>block_number := 43\<rparr>) s')
       \<and> \<not> hasBalanceDeposited (env1\<lparr>block_number := 43\<rparr>) s'
       \<and> getEncryptedWager (env1\<lparr>block_number := 43\<rparr>) s' = Input 2)"
proof -
  have a: "msg_sender (env1\<lparr>block_number := 43\<rparr>) = msg_sender env1"
    by simp
  have b: "getEncryptedWager (env1\<lparr>block_number := 43\<rparr>) (st_game 6) = Input 2"
    by (simp add: getEncryptedWager_def ex_defs)
  from resetUserData_queries [OF a, where s = "st_game 6" and pt = pt1] a b
  show ?thesis by auto
qed

section \<open>One active game per principal\<close>

lemma exec_games:
  assumes "exec e op s = Inr s'"
  shows "a \<noteq> msg_sender e \<Longrightarrow> games s' a = games s a"
    and "(\<exists>x p. op = StartGame x p) \<and> \<not> isActive (games s (msg_sender e))
           \<and> isActive (games s' (msg_sender e)) \<and> player (games s' (msg_sender e)) = msg_sender e
       \<or> player (games s' (msg_sender e)) = player (games s (msg_sender e))
           \<and> wager (games s' (msg_sender e)) = wager (games s (msg_sender e))
           \<and> timestamp (games s' (msg_sender e)) = timestamp (games s (msg_sender e))
           \<and> gameSecret (games s' (msg_sender e)) = gameSecret (games s (msg_sender e))
           \<and> (isActive (games s' (msg_sender e)) \<longrightarrow> isActive (games s (msg_sender e)))"
  using assms
  by (cases op; auto simp add: op_defs fhe_defs acl_defs Let_def checked_defs split: if_splits)+

lemma exec_simpleGames:
  assumes "exec e op s = Inr s'"
  shows "a \<noteq> msg_sender e \<Longrightarrow> simpleGames s' a = simpleGames s a"
    and "(\<exists>w. op = SimpleStartGame w) \<and> \<not> isActive (simpleGames s (msg_sender e))
           \<and> isActive (simpleGames s' (msg_sender e)) \<and> player (simpleGames s' (msg_sender e)) = msg_sender e
       \<or> player (simpleGames s' (msg_sender e)) = player (simpleGames s (msg_sender e))
           \<and> wager (simpleGames s' (msg_sender e)) = wager (simpleGames s (msg_sender e))
           \<and> timestamp (simpleGames s' (msg_sender e)) = timestamp (simpleGames s (msg_sender e))
           \<and> gameSecret (simpleGames s' (msg_sender e)) = gameSecret (simpleGames s (msg_sender e))
           \<and> (isActive (simpleGames s' (msg_sender e)) \<longrightarrow> isActive (simpleGames s (msg_sender e)))"
  using assms
  by (cases op; auto simp add: op_defs fhe_defs acl_defs Let_def checked_defs split: if_splits)+

lemma exec_owner:
  assumes "exec e op s = Inr s'"
      and "\<forall>a. isActive (games s a) \<longrightarrow> player (games s a) = a"
  shows "isActive (games s' a) \<longrightarrow> player (games s' a) = a"
  using exec_games(1) [OF assms(1), of a] exec_games(2) [OF assms(1)] assms(2)
  by (cases "a = msg_sender e") auto

lemma exec_simple_owner:
  assumes "exec e op s = Inr s'"
      and "\<forall>a. isActive (simpleGames s a) \<longrightarrow> player (simpleGames s a) = a"
  shows "isActive (simpleGames s' a) \<longrightarrow> player (simpleGames s' a) = a"
  using exec_simpleGames(1) [OF assms(1), of a] exec_simpleGames(2) [OF assms(1)] assms(2)
  by (cases "a = msg_sender e") auto

lemma run_owner:
  "run cs s = Inr r \<Longrightarrow> \<forall>a. isActive (games s a) \<longrightarrow> player (games s a) = a
     \<Longrightarrow> \<forall>a. isActive (games r a) \<longrightarrow> player (games r a) = a"
proof (induction cs arbitrary: s)
  case Nil
  then show ?case by simp
next
  case (Cons c cs)
  obtain e op where c: "c = (e, op)" by (cases c)
  from Cons.prems(1) c obtain m where m: "exec e op s = Inr m" and r: "run cs m = Inr r"
    by (auto split: sum.splits)
  have "\<forall>a. isActive (games m a) \<longrightarrow> player (games m a) = a"
    using exec_owner [OF m Cons.prems(2)] by blast
  with Cons.IH [OF r] show ?case by blast
qed

lemma run_simple_owner:
  "run cs s = Inr r \<Longrightarrow> \<forall>a. isActive (simpleGames s a) \<longrightarrow> player (simpleGames s a) = a
     \<Longrightarrow> \<forall>a. isActive (simpleGames r a) \<longrightarrow> player (simpleGames r a) = a"
proof (induction cs arbitrary: s)
  case Nil
  then show ?case by simp
next
  case (Cons c cs)
  obtain e op where c: "c = (e, op)" by (cases c)
  from Cons.prems(1) c obtain m where m: "exec e op s = Inr m" and r: "run cs m = Inr r"
    by (auto split: sum.splits)
  have "\<forall>a. isActive (simpleGames m a) \<longrightarrow> player (simpleGames m a) = a"
    using exec_simple_owner [OF m Cons.prems(2)] by blast
  with Cons.IH [OF r] show ?case by blast
qed

text \<open>
  Claim C6. The contract keeps one game record per principal and ledger variant
  (\<open>games[msg.sender]\<close>, \<open>simpleGames[msg.sender]\<close>), so at most one record of a variant
  can be active for a principal, and no operation creates a second one:
  \<^item> \<open>startGame\<close> and \<open>simpleStartGame\<close> fail with \<open>GameAlreadyActive\<close> whenever the
    caller's record of the same variant is active;
  \<^item> a record that is active before and after an operation is the same game (same player,
    wager, start time and secret);
  \<^item> a record becomes active only through a start of its variant called by its own
    principal, and then names that principal as player;
  \<^item> in every state reachable from the initial one, an active record stored for a
    principal names that principal as its player.
\<close>

theorem one_active_game:
  "(isActive (games s (msg_sender e)) \<longrightarrow> startGame e x p s = Inl GameAlreadyActive)
 \<and> (isActive (simpleGames s (msg_sender e)) \<longrightarrow> simpleStartGame e w s = Inl GameAlreadyActive)
 \<and> (exec e op s = Inr s' \<and> isActive (games s a) \<and> isActive (games s' a) \<longrightarrow>
       player (games s' a) = player (games s a) \<and> wager (games s' a) = wager (games s a)
     \<and> timestamp (games s' a) = timestamp (games s a)
     \<and> gameSecret (games s' a) = gameSecret (games s a))
 \<and> (exec e op s = Inr s' \<and> isActive (simpleGames s a) \<and> isActive (simpleGames s' a) \<longrightarrow>
       player (simpleGames s' a) = player (simpleGames s a)
     \<and> wager (simpleGames s' a) = wager (simpleGames s a)
     \<and> timestamp (simpleGames s' a) = timestamp (simpleGames s a)
     \<and> gameSecret (simpleGames s' a) = gameSecret (simpleGames s a))
 \<and> (exec e op s = Inr s' \<and> \<not> isActive (games s a) \<and> isActive (games s' a) \<longrightarrow>
       a = msg_sender e \<and> (\<exists>y q. op = StartGame y q) \<and> player (games s' a) = a)
 \<and> (exec e op s = Inr s' \<and> \<not> isActive (simpleGames s a) \<and> isActive (simpleGames s' a) \<longrightarrow>
       a = msg_sender e \<and> (\<exists>v. op = SimpleStartGame v) \<and> player (simpleGames s' a) = a)
 \<and> (run cs initial = Inr r \<and> isActive (games r a) \<longrightarrow> player (games r a) = a)
 \<and> (run cs initial = Inr r \<and> isActive (simpleGames r a) \<longrightarrow> player (simpleGames r a) = a)"
proof (intro conjI impI)
  assume "isActive (games s (msg_sender e))"
  then show "startGame e x p s = Inl GameAlreadyActive"
    by (simp add: startGame_def)
next
  assume "isActive (simpleGames s (msg_sender e))"
  then show "simpleStartGame e w s = Inl GameAlreadyActive"
    by (simp add: simpleStartGame_def)
next
  assume h: "exec e op s = Inr s' \<and> isActive (games s a) \<and> isActive (games s' a)"
  then have x: "exec e op s = Inr s'" by simp
  from exec_games(1) [OF x, of a] exec_games(2) [OF x] h
  show "player (games s' a) = player (games s a)" "wager (games s' a) = wager (games s a)"
    "timestamp (games s' a) = timestamp (games s a)"
    "gameSecret (games s' a) = gameSecret (games s a)"
    by (cases "a = msg_sender e"; auto)+
next
  assume h: "exec e op s = Inr s' \<and> isActive (simpleGames s a) \<and> isActive (simpleGames s' a)"
  then have x: "exec e op s = Inr s'" by simp
  from exec_simpleGames(1) [OF x, of a] exec_simpleGames(2) [OF x] h
  show "player (simpleGames s' a) = player (simpleGames s a)"
    "wager (simpleGames s' a) = wager (simpleGames s a)"
    "timestamp (simpleGames s' a) = timestamp (simpleGames s a)"
    "gameSecret (simpleGames s' a) = gameSecret (simpleGames s a)"
    by (cases "a = msg_sender e"; auto)+
next
  assume h: "exec e op s = Inr s' \<and> \<not> isActive (games s a) \<and> isActive (games s' a)"
  then have x: "exec e op s = Inr s'" by simp
  from exec_games(1) [OF x, of a] exec_games(2) [OF x] h
  show "a = msg_sender e" "\<exists>y q. op = StartGame y q" "player (games s' a) = a"
    by (cases "a = msg_sender e"; auto)+
next
  assume h: "exec e op s = Inr s' \<and> \<not> isActive (simpleGames s a) \<and> isActive (simpleGames s' a)"
  then have x: "exec e op s = Inr s'" by simp
  from exec_simpleGames(1) [OF x, of a] exec_simpleGames(2) [OF x] h
  show "a = msg_sender e" "\<exists>v. op = SimpleStartGame v" "player (simpleGames s' a) = a"
    by (cases "a = msg_sender e"; auto)+
next
  assume h: "run cs initial = Inr r \<and> isActive (games r a)"
  have "\<forall>a. isActive (games initial a) \<longrightarrow> player (games initial a) = a"
    by (simp add: initial_def emptyGame_def)
  with run_owner [of cs initial r] h show "player (games r a) = a" by blast
next
  assume h: "run cs initial = Inr r \<and> isActive (simpleGames r a)"
  have "\<forall>a. isActive (simpleGames initial a) \<longrightarrow> player (simpleGames initial a) = a"
    by (simp add: initial_def emptySimpleGame_def)
  with run_simple_owner [of cs initial r] h show "player (simpleGames r a) = a" by blast
qed

theorem one_active_game_witness:
  "isActive (games (st_game 6) (msg_sender env1))
 \<and> startGame env1 2 [1] (st_game 6) = Inl GameAlreadyActive
 \<and> isActive (simpleGames (st_simple 100 10 7) (msg_sender env1))
 \<and> simpleStartGame env1 5 (st_simple 100 10 7) = Inl GameAlreadyActive
 \<and> isActive (games (st_game 13) 1)
 \<and> (\<exists>s'. exec env1 (MakeGuess False) (st_game 13) = Inr s' \<and> isActive (games s' 1)
        \<and> gameSecret (games s' 1) = gameSecret (games (st_game 13) 1))
 \<and> isActive (simpleGames (st_simple 100 10 7) 1)
 \<and> (\<exists>s'. exec env1 (SimpleMakeGuess True) (st_simple 100 10 7) = Inr s'
        \<and> isActive (simpleGames s' 1)
        \<and> gameSecret (simpleGames s' 1) = gameSecret (simpleGames (st_simple 100 10 7) 1))
 \<and> \<not> isActive (games st_funded 1)
 \<and> (\<exists>s'. exec env1 (StartGame 2 [1]) st_funded = Inr s' \<and> isActive (games s' 1)
        \<and> player (games s' 1) = 1)
 \<and> \<not> isActive (simpleGames (st_plain 100) 1)
 \<and> (\<exists>s'. exec env1 (SimpleStartGame 10) (st_plain 100) = Inr s' \<and> isActive (simpleGames s' 1)
        \<and> player (simpleGames s' 1) = 1)
 \<and> (\<exists>r. run [(env1, FhevmDeposit 100000000000000), (env1, StartGame 2 [1])] initial = Inr r
        \<and> isActive (games r 1) \<and> player (games r 1) = 1)
 \<and> (\<exists>r. run [(env1, SimpleDeposit 100), (env1, SimpleStartGame 10)] initial = Inr r
        \<and> isActive (simpleGames r 1) \<and> player (simpleGames r 1) = 1)"
proof -
  have a1: "isActive (games (st_game 6) (msg_sender env1))"
    by (simp add: ex_defs)
  have a2: "isActive (simpleGames (st_simple 100 10 7) (msg_sender env1))"
    by (simp add: ex_defs)
  have a3: "isActive (games (st_game 13) 1)"
    by (simp add: ex_defs)
  have a4: "isActive (simpleGames (st_simple 100 10 7) 1)"
    by (simp add: ex_defs)
  have a5: "\<not> isActive (games st_funded 1)"
    by (simp add: ex_defs emptyGame_def)
  have a6: "\<not> isActive (simpleGames (st_plain 100) 1)"
    by (simp add: ex_defs emptySimpleGame_def)
  have "\<exists>s'. exec env1 (MakeGuess False) (st_game 13) = Inr s' \<and> isActive (games s' 1)"
    by (simp add: makeGuess_def fhe_defs ex_defs Let_def)
  then obtain s3 where b3: "exec env1 (MakeGuess False) (st_game 13) = Inr s3"
      "isActive (games s3 1)"
    by blast
  have "\<exists>s'. exec env1 (SimpleMakeGuess True) (st_simple 100 10 7) = Inr s'
          \<and> isActive (simpleGames s' 1)"
    by (simp add: simpleMakeGuess_def fhe_defs ex_defs Let_def checked_defs)
  then obtain s4 where b4: "exec env1 (SimpleMakeGuess True) (st_simple 100 10 7) = Inr s4"
      "isActive (simpleGames s4 1)"
    by blast
  have "\<exists>s'. exec env1 (StartGame 2 [1]) st_funded = Inr s' \<and> isActive (games s' 1)"
    by (simp add: startGame_def fhe_defs ex_defs Let_def emptyGame_def)
  then obtain s5 where b5: "exec env1 (StartGame 2 [1]) st_funded = Inr s5"
      "isActive (games s5 1)"
    by blast
  have "\<exists>s'. exec env1 (SimpleStartGame 10) (st_plain 100) = Inr s'
          \<and> isActive (simpleGames s' 1)"
    by (simp add: simpleStartGame_def fhe_defs ex_defs Let_def emptySimpleGame_def checked_defs)
  then obtain s6 where b6: "exec env1 (SimpleStartGame 10) (st_plain 100) = Inr s6"
      "isActive (simpleGames s6 1)"
    by blast
  have "\<exists>r. run [(env1, FhevmDeposit 100000000000000), (env1, StartGame 2 [1])] initial = Inr r
          \<and> isActive (games r 1)"
    by (simp add: fhevmDeposit_def startGame_def fhe_defs ex_defs Let_def emptyGame_def)
  then obtain r7 where b7:
      "run [(env1, FhevmDeposit 100000000000000), (env1, StartGame 2 [1])] initial = Inr r7"
      "isActive (games r7 1)"
    by blast
  have "\<exists>r. run [(env1, SimpleDeposit 100), (env1, SimpleStartGame 10)] initial = Inr r
          \<and> isActive (simpleGames r 1)"
    by (simp add: simpleDeposit_def simpleStartGame_def fhe_defs ex_defs Let_def
        emptySimpleGame_def checked_defs)
  then obtain r8 where b8:
      "run [(env1, SimpleDeposit 100), (env1, SimpleStartGame 10)] initial = Inr r8"
      "isActive (simpleGames r8 1)"
    by blast
  note t = one_active_game
  from a1 t [where e = env1 and s = "st_game 6" and x = 2 and p = "[1]"]
  have c1: "startGame env1 2 [1] (st_game 6) = Inl GameAlreadyActive" by blast
  from a2 t [where e = env1 and s = "st_simple 100 10 7" and w = 5]
  have c2: "simpleStartGame env1 5 (st_simple 100 10 7) = Inl GameAlreadyActive" by blast
  from a3 b3 t [where e = env1 and s = "st_game 13" and op = "MakeGuess False" and s' = s3 and a = 1]
  have c3: "gameSecret (games s3 1) = gameSecret (games (st_game 13) 1)" by blast
  from a4 b4 t [where e = env1 and s = "st_simple 100 10 7" and op = "SimpleMakeGuess True"
      and s' = s4 and a = 1]
  have c4: "gameSecret (simpleGames s4 1) = gameSecret (simpleGames (st_simple 100 10 7) 1)"
    by blast
  from a5 b5 t [where e = env1 and s = st_funded and op = "StartGame 2 [1]" and s' = s5 and a = 1]
  have c5: "player (games s5 1) = 1" by blast
  from a6 b6 t [where e = env1 and s = "st_plain 100" and op = "SimpleStartGame 10" and s' = s6
      and a = 1]
  have c6: "player (simpleGames s6 1) = 1" by blast
  from b7 t [where cs = "[(env1, FhevmDeposit 100000000000000), (env1, StartGame 2 [1])]"
      and r = r7 and a = 1]
  have c7: "player (games r7 1) = 1" by blast
  from b8 t [where cs = "[(env1, SimpleDeposit 100), (env1, SimpleStartGame 10)]"
      and r = r8 and a = 1]
  have c8: "player (simpleGames r8 1) = 1" by blast
  from a1 a2 a3 a4 a5 a6 b3 b4 b5 b6 b7 b8 c1 c2 c3 c4 c5 c6 c7 c8 show ?thesis
    by blast
qed

section \<open>New handles are granted at once\<close>

lemma exec_acl_mono:
  assumes "exec e op s = Inr s'"
  shows "acl s \<subseteq> acl s'"
  using assms
  by (cases op; auto simp add: op_defs fhe_defs acl_defs Let_def checked_defs split: if_splits)

lemma exec_balance_granted:
  assumes "exec e op s = Inr s'" and "encryptedBalances s' a \<noteq> encryptedBalances s a"
  shows "isGranted s' (encryptedBalances s' a) (address_this e)
       \<and> isGranted s' (encryptedBalances s' a) a"
  using assms
  by (cases op; auto simp add: op_defs fhe_defs acl_defs Let_def checked_defs split: if_splits)

lemma exec_score_granted:
  assumes "exec e op s = Inr s'" and "encryptedScores s' a \<noteq> encryptedScores s a"
  shows "isGranted s' (encryptedScores s' a) (address_this e)
       \<and> isGranted s' (encryptedScores s' a) a"
  using assms
  by (cases op; auto simp add: op_defs fhe_defs acl_defs Let_def checked_defs split: if_splits)

lemma exec_flag_granted:
  assumes "exec e op s = Inr s'" and "encryptedFlags s' a \<noteq> encryptedFlags s a"
  shows "isGranted s' (encryptedFlags s' a) (address_this e)
       \<and> isGranted s' (encryptedFlags s' a) a"
  using assms
  by (cases op; auto simp add: op_defs fhe_defs acl_defs Let_def checked_defs split: if_splits)

lemma exec_wager_granted:
  assumes "exec e op s = Inr s'" and "wager (games s' a) \<noteq> wager (games s a)"
  shows "isGranted s' (wager (games s' a)) (address_this e)
       \<and> isGranted s' (wager (games s' a)) a"
  using assms
  by (cases op; auto simp add: op_defs fhe_defs acl_defs Let_def checked_defs split: if_splits)

lemma exec_game_score_granted:
  assumes "exec e op s = Inr s'" and "score (games s' a) \<noteq> score (games s a)"
  shows "isGranted s' (score (games s' a)) (address_this e)
       \<and> isGranted s' (score (games s' a)) a"
  using assms
  by (cases op; auto simp add: op_defs fhe_defs acl_defs Let_def checked_defs split: if_splits)

lemma exec_handle_granted:
  assumes x: "exec e op s = Inr s'"
      and g: "handle_granted (address_this e) s a h"
      and n: "h' \<noteq> h \<Longrightarrow> isGranted s' h' (address_this e) \<and> isGranted s' h' a"
  shows "handle_granted (address_this e) s' a h'"
proof (cases "h' = h")
  case True
  with g exec_acl_mono [OF x] show ?thesis
    by (auto simp add: handle_granted_def isGranted_def)
next
  case False
  with n show ?thesis by (simp add: handle_granted_def)
qed

lemma exec_slots_granted:
  assumes x: "exec e op s = Inr s'" and i: "slots_granted (address_this e) s"
  shows "slots_granted (address_this e) s'"
  unfolding slots_granted_def
proof (intro allI conjI)
  fix a
  from i have g: "handle_granted (address_this e) s a (encryptedBalances s a)"
      "handle_granted (address_this e) s a (encryptedScores s a)"
      "handle_granted (address_this e) s a (encryptedFlags s a)"
      "handle_granted (address_this e) s a (wager (games s a))"
      "handle_granted (address_this e) s a (score (games s a))"
    by (simp_all add: slots_granted_def)
  show "handle_granted (address_this e) s' a (encryptedBalances s' a)"
    using exec_handle_granted [OF x g(1)] exec_balance_granted [OF x] by blast
  show "handle_granted (address_this e) s' a (encryptedScores s' a)"
    using exec_handle_granted [OF x g(2)] exec_score_granted [OF x] by blast
  show "handle_granted (address_this e) s' a (encryptedFlags s' a)"
    using exec_handle_granted [OF x g(3)] exec_flag_granted [OF x] by blast
  show "handle_granted (address_this e) s' a (wager (games s' a))"
    using exec_handle_granted [OF x g(4)] exec_wager_granted [OF x] by blast
  show "handle_granted (address_this e) s' a (score (games s' a))"
    using exec_handle_granted [OF x g(5)] exec_game_score_granted [OF x] by blast
qed

lemma run_slots_granted:
  "run cs s = Inr r \<Longrightarrow> \<forall>c \<in> set cs. address_this (fst c) = this
     \<Longrightarrow> slots_granted this s \<Longrightarrow> slots_granted this r"
proof (induction cs arbitrary: s)
  case Nil
  then show ?case by simp
next
  case (Cons c cs)
  obtain e op where c: "c = (e, op)" by (cases c)
  from Cons.prems(1) c obtain m where m: "exec e op s = Inr m" and r: "run cs m = Inr r"
    by (auto split: sum.splits)
  from Cons.prems(2) c have t: "address_this e = this" and ts: "\<forall>c \<in> set cs. address_this (fst c) = this"
    by simp_all
  from exec_slots_granted [OF m] Cons.prems(3) t have "slots_granted this m"
    by simp
  from Cons.IH [OF r ts this] show ?case .
qed

lemma initial_slots_granted: "slots_granted this initial"
  by (simp add: slots_granted_def handle_granted_def initial_def emptyGame_def)

text \<open>
  Claim C7. Whenever an operation replaces the handle in a confidential balance, score,
  flag, game-wager or game-score slot, the new handle of that slot is granted to the
  contract itself and to the principal owning the slot in the state the operation
  commits. An operation is one function from state to state, so no state in between is
  observable. Grants are never removed by an operation. Consequently, in every state
  reachable from the initial one by calls to the same contract, each such slot either
  still holds its default handle or holds a handle with both grants.
\<close>

theorem new_handles_granted:
  "(exec e op s = Inr s' \<and> encryptedBalances s' a \<noteq> encryptedBalances s a \<longrightarrow>
      isGranted s' (encryptedBalances s' a) (address_this e)
    \<and> isGranted s' (encryptedBalances s' a) a)
 \<and> (exec e op s = Inr s' \<and> encryptedScores s' a \<noteq> encryptedScores s a \<longrightarrow>
      isGranted s' (encryptedScores s' a) (address_this e)
    \<and> isGranted s' (encryptedScores s' a) a)
 \<and> (exec e op s = Inr s' \<and> encryptedFlags s' a \<noteq> encryptedFlags s a \<longrightarrow>
      isGranted s' (encryptedFlags s' a) (address_this e)
    \<and> isGranted s' (encryptedFlags s' a) a)
 \<and> (exec e op s = Inr s' \<and> wager (games s' a) \<noteq> wager (games s a) \<longrightarrow>
      isGranted s' (wager (games s' a)) (address_this e)
    \<and> isGranted s' (wager (games s' a)) a)
 \<and> (exec e op s = Inr s' \<and> score (games s' a) \<noteq> score (games s a) \<longrightarrow>
      isGranted s' (score (games s' a)) (address_this e)
    \<and> isGranted s' (score (games s' a)) a)
 \<and> (exec e op s = Inr s' \<and> isGranted s h b \<longrightarrow> isGranted s' h b)
 \<and> (run cs initial = Inr r \<and> (\<forall>c \<in> set cs. address_this (fst c) = this)
      \<and> (h = encryptedBalances r a \<or> h = encryptedScores r a \<or> h = encryptedFlags r a
          \<or> h = wager (games r a) \<or> h = score (games r a))
      \<and> h \<noteq> Uninit \<longrightarrow>
      isGranted r h this \<and> isGranted r h a)"
proof (intro conjI impI)
  assume "exec e op s = Inr s' \<and> encryptedBalances s' a \<noteq> encryptedBalances s a"
  then show "isGranted s' (encryptedBalances s' a) (address_this e)"
      "isGranted s' (encryptedBalances s' a) a"
    using exec_balance_granted [of e op s s' a] by simp_all
next
  assume "exec e op s = Inr s' \<and> encryptedScores s' a \<noteq> encryptedScores s a"
  then show "isGranted s' (encryptedScores s' a) (address_this e)"
      "isGranted s' (encryptedScores s' a) a"
    using exec_score_granted [of e op s s' a] by simp_all
next
  assume "exec e op s = Inr s' \<and> encryptedFlags s' a \<noteq> encryptedFlags s a"
  then show "isGranted s' (encryptedFlags s' a) (address_this e)"
      "isGranted s' (encryptedFlags s' a) a"
    using exec_flag_granted [of e op s s' a] by simp_all
next
  assume "exec e op s = Inr s' \<and> wager (games s' a) \<noteq> wager (games s a)"
  then show "isGranted s' (wager (games s' a)) (address_this e)"
      "isGranted s' (wager (games s' a)) a"
    using exec_wager_granted [of e op s s' a] by simp_all
next
  assume "exec e op s = Inr s' \<and> score (games s' a) \<noteq> score (games s a)"
  then show "isGranted s' (score (games s' a)) (address_this e)"
      "isGranted s' (score (games s' a)) a"
    using exec_game_score_granted [of e op s s' a] by simp_all
next
  assume "exec e op s = Inr s' \<and> isGranted s h b"
  then show "isGranted s' h b"
    using exec_acl_mono [of e op s s'] by (auto simp add: isGranted_def)
next
  assume h: "run cs initial = Inr r \<and> (\<forall>c \<in> set cs. address_this (fst c) = this)
      \<and> (h = encryptedBalances r a \<or> h = encryptedScores r a \<or> h = encryptedFlags r a
          \<or> h = wager (games r a) \<or> h = score (games r a))
      \<and> h \<noteq> Uninit"
  then have "slots_granted this r"
    using run_slots_granted [of cs initial r this] initial_slots_granted [of this] by simp
  then have g: "handle_granted this r a (encryptedBalances r a)"
      "handle_granted this r a (encryptedScores r a)"
      "handle_granted this r a (encryptedFlags r a)"
      "handle_granted this r a (wager (games r a))"
      "handle_granted this r a (score (games r a))"
    by (simp_all add: slots_granted_def)
  from h have "handle_granted this r a h"
    using g by (elim conjE disjE) simp_all
  with h show "isGranted r h this" "isGranted r h a"
    by (simp_all add: handle_granted_def)
qed

theorem new_handles_granted_witness:
  "(\<exists>s'. exec env1 (StartGame 2 [1]) st_funded = Inr s'
      \<and> encryptedBalances s' 1 \<noteq> encryptedBalances st_funded 1
      \<and> isGranted s' (encryptedBalances s' 1) (address_this env1)
      \<and> isGranted s' (encryptedBalances s' 1) 1
      \<and> wager (games s' 1) \<noteq> wager (games st_funded 1)
      \<and> isGranted s' (wager (games s' 1)) (address_this env1)
      \<and> isGranted s' (wager (games s' 1)) 1
      \<and> score (games s' 1) \<noteq> score (games st_funded 1)
      \<and> isGranted s' (score (games s' 1)) (address_this env1)
      \<and> isGranted s' (score (games s' 1)) 1)
 \<and> (\<exists>s'. exec env1 (PerformArithmetic 3 1 [1] [1]) initial = Inr s'
      \<and> encryptedScores s' 1 \<noteq> encryptedScores initial 1
      \<and> isGranted s' (encryptedScores s' 1) (address_this env1)
      \<and> isGranted s' (encryptedScores s' 1) 1)
 \<and> (\<exists>s'. exec env1 (SetEncryptedFlag True) initial = Inr s'
      \<and> encryptedFlags s' 1 \<noteq> encryptedFlags initial 1
      \<and> isGranted s' (encryptedFlags s' 1) (address_this env1)
      \<and> isGranted s' (encryptedFlags s' 1) 1)
 \<and> isGranted st_marked (TrivialBool True) 1
 \<and> (\<exists>s'. exec env1 (SetEncryptedFlag False) st_marked = Inr s'
      \<and> isGranted s' (TrivialBool True) 1)
 \<and> address_this (fst (env1, FhevmDeposit 100000000000000)) = 4096
 \<and> address_this (fst (env1, StartGame 2 [1])) = 4096
 \<and> (\<exists>r. run [(env1, FhevmDeposit 100000000000000), (env1, StartGame 2 [1])] initial = Inr r
      \<and> encryptedBalances r 1 \<noteq> Uninit
      \<and> isGranted r (encryptedBalances r 1) 4096
      \<and> isGranted r (encryptedBalances r 1) 1)"
proof -
  note t = new_handles_granted
  have "\<exists>s'. exec env1 (StartGame 2 [1]) st_funded = Inr s'
      \<and> encryptedBalances s' 1 \<noteq> encryptedBalances st_funded 1
      \<and> wager (games s' 1) \<noteq> wager (games st_funded 1)
      \<and> score (games s' 1) \<noteq> score (games st_funded 1)"
    by (simp add: startGame_def fhe_defs ex_defs Let_def emptyGame_def)
  then obtain s1 where b1: "exec env1 (StartGame 2 [1]) st_funded = Inr s1"
      "encryptedBalances s1 1 \<noteq> encryptedBalances st_funded 1"
      "wager (games s1 1) \<noteq> wager (games st_funded 1)"
      "score (games s1 1) \<noteq> score (games st_funded 1)"
    by blast
  from b1 t [where e = env1 and op = "StartGame 2 [1]" and s = st_funded and s' = s1 and a = 1]
  have c1: "isGranted s1 (encryptedBalances s1 1) (address_this env1)"
      "isGranted s1 (encryptedBalances s1 1) 1"
      "isGranted s1 (wager (games s1 1)) (address_this env1)"
      "isGranted s1 (wager (games s1 1)) 1"
      "isGranted s1 (score (games s1 1)) (address_this env1)"
      "isGranted s1 (score (games s1 1)) 1"
    by blast+
  have "\<exists>s'. exec env1 (PerformArithmetic 3 1 [1] [1]) initial = Inr s'
      \<and> encryptedScores s' 1 \<noteq> encryptedScores initial 1"
    by (simp add: performArithmetic_def fhe_defs env1_simps initial_def Let_def)
  then obtain s2 where b2: "exec env1 (PerformArithmetic 3 1 [1] [1]) initial = Inr s2"
      "encryptedScores s2 1 \<noteq> encryptedScores initial 1"
    by blast
  from b2 t [where e = env1 and op = "PerformArithmetic 3 1 [1] [1]" and s = initial
      and s' = s2 and a = 1]
  have c2: "isGranted s2 (encryptedScores s2 1) (address_this env1)"
      "isGranted s2 (encryptedScores s2 1) 1"
    by blast+
  have "\<exists>s'. exec env1 (SetEncryptedFlag True) initial = Inr s'
      \<and> encryptedFlags s' 1 \<noteq> encryptedFlags initial 1"
    by (simp add: setEncryptedFlag_def fhe_defs env1_simps initial_def Let_def)
  then obtain s3 where b3: "exec env1 (SetEncryptedFlag True) initial = Inr s3"
      "encryptedFlags s3 1 \<noteq> encryptedFlags initial 1"
    by blast
  from b3 t [where e = env1 and op = "SetEncryptedFlag True" and s = initial and s' = s3
      and a = 1]
  have c3: "isGranted s3 (encryptedFlags s3 1) (address_this env1)"
      "isGranted s3 (encryptedFlags s3 1) 1"
    by blast+
  have a4: "isGranted st_marked (TrivialBool True) 1"
    by (simp add: st_marked_def after_call_def performArithmetic_def setEncryptedFlag_def
        fhe_defs env1_simps initial_def Let_def isGranted_def)
  have "\<exists>s'. exec env1 (SetEncryptedFlag False) st_marked = Inr s'"
    by (simp add: setEncryptedFlag_def Let_def)
  then obtain s4 where b4: "exec env1 (SetEncryptedFlag False) st_marked = Inr s4"
    by blast
  from a4 b4 t [where e = env1 and op = "SetEncryptedFlag False" and s = st_marked and s' = s4
      and h = "TrivialBool True" and b = 1]
  have c4: "isGranted s4 (TrivialBool True) 1"
    by blast
  let ?cs = "[(env1, FhevmDeposit 100000000000000), (env1, StartGame 2 [1])]"
  have a5: "\<forall>c \<in> set ?cs. address_this (fst c) = 4096"
    by (simp add: env1_simps)
  have "\<exists>r. run ?cs initial = Inr r \<and> encryptedBalances r 1 \<noteq> Uninit"
    by (simp add: fhevmDeposit_def startGame_def fhe_defs ex_defs Let_def emptyGame_def)
  then obtain r5 where b5: "run ?cs initial = Inr r5" "encryptedBalances r5 1 \<noteq> Uninit"
    by blast
  from a5 b5 t [where cs = ?cs and r = r5 and this = 4096 and h = "encryptedBalances r5 1"
      and a = 1]
  have c5: "isGranted r5 (encryptedBalances r5 1) 4096" "isGranted r5 (encryptedBalances r5 1) 1"
    by blast+
  have a6: "address_this (fst (env1, FhevmDeposit 100000000000000)) = 4096"
      "address_this (fst (env1, StartGame 2 [1])) = 4096"
    by (simp_all add: env1_simps)
  from b1 c1 b2 c2 b3 c3 a4 b4 c4 a6 b5 c5 show ?thesis
    by blast
qed

section \<open>Re-asserting grants\<close>

lemma ACL_allow_fresh: "h \<in> tr \<Longrightarrow> ACL_allow e tr h a s = Inr (FHE_allow h a s)"
  by (simp add: ACL_allow_def)












end
